theory Spec2Isabelle
  imports Main
begin

section \<open>Sequencing of fallible steps\<close>

text \<open>
  A step either fails with an error (\<open>Inl\<close>: a thrown exception, a revert, a panic) or
  returns a value (\<open>Inr\<close>). \<open>and_then m f\<close> runs \<open>f\<close> on the value of \<open>m\<close> and lets an
  error of \<open>m\<close> end the computation.
\<close>

definition and_then :: "'e + 'a \<Rightarrow> ('a \<Rightarrow> 'e + 'b) \<Rightarrow> 'e + 'b" where
  "and_then m f = (case m of Inl e \<Rightarrow> Inl e | Inr x \<Rightarrow> f x)"

section \<open>JavaScript values used by the off-chain pipeline\<close>

text \<open>
  The scanner and the slippage guard compute on JavaScript \<^verbatim>\<open>BigInt\<close> values:
  unbounded integers whose division truncates towards zero and throws a
  \<^verbatim>\<open>RangeError\<close> when the divisor is zero. \<^verbatim>\<open>BigInt(undefined)\<close> throws a
  \<^verbatim>\<open>TypeError\<close>. A failed contract read rejects its promise (\<open>CallException\<close>).
\<close>

datatype js_error = RangeError | TypeError | CallException

definition bigint_quot :: "int \<Rightarrow> int \<Rightarrow> int" where
  "bigint_quot a b = sgn a * sgn b * (\<bar>a\<bar> div \<bar>b\<bar>)"

definition bigint_div :: "int \<Rightarrow> int \<Rightarrow> js_error + int" where
  "bigint_div a b = (if b = 0 then Inl RangeError else Inr (bigint_quot a b))"

text \<open>
  Amounts handed to the slippage guard are decimal strings (or \<^verbatim>\<open>undefined\<close> when an
  opportunity lacks the field). A decimal string is represented by the integer it
  denotes, \<^verbatim>\<open>undefined\<close> by \<open>None\<close>; \<^verbatim>\<open>BigInt(s)\<close> and \<^verbatim>\<open>n.toString()\<close> are then
  the identity on present values.
\<close>

definition toBigInt :: "int option \<Rightarrow> js_error + int" where
  "toBigInt v = (case v of None \<Rightarrow> Inl TypeError | Some n \<Rightarrow> Inr n)"

text \<open>\<^verbatim>\<open>a || b\<close> on such values: a present (non-empty) string is truthy.\<close>

definition js_or :: "int option \<Rightarrow> int option \<Rightarrow> int option" where
  "js_or a b = (case a of Some v \<Rightarrow> Some v | None \<Rightarrow> b)"

section \<open>Constant-product quote of the V2 scanner\<close>

text \<open>\<^verbatim>\<open>UniswapScanner.calculateAmountOut(amountIn, reserveIn, reserveOut)\<close>.\<close>

definition calculateAmountOut :: "int \<Rightarrow> int \<Rightarrow> int \<Rightarrow> js_error + int" where
  "calculateAmountOut amountIn reserveIn reserveOut =
     (let amountInWithFee = amountIn * 997;
          numerator = amountInWithFee * reserveOut;
          denominator = (reserveIn * 1000) + amountInWithFee
      in bigint_div numerator denominator)"

section \<open>Slippage guard\<close>

text \<open>
  \<^verbatim>\<open>SlippageCalculator\<close>. The field \<^verbatim>\<open>slippageBasisPoints\<close> is the tolerance in
  percent times 100; it is taken here as an integer (the default 2 percent gives 200).
\<close>

record opportunity =
  reserve0A :: "int option"
  reserves0A :: "int option"
  reserve1A :: "int option"
  reserves1A :: "int option"
  reserve0B :: "int option"
  reserves0B :: "int option"
  reserve1B :: "int option"
  reserves1B :: "int option"
  opp_profit :: "int option"

definition calculateMinAmountOut ::
  "int \<Rightarrow> int option \<Rightarrow> int option \<Rightarrow> int option \<Rightarrow> bool \<Rightarrow> int \<Rightarrow> js_error + int" where
  "calculateMinAmountOut slippageBasisPoints amountIn reserve0 reserve1 token0In feeBasisPoints =
     and_then (toBigInt amountIn) (\<lambda>amountInBN.
     and_then (toBigInt reserve0) (\<lambda>reserve0BN.
     and_then (toBigInt reserve1) (\<lambda>reserve1BN.
     let feeMultiplier = 10000 - feeBasisPoints;
         feeDivisor = 10000;
         reserveIn = (if token0In then reserve0BN else reserve1BN);
         reserveOut = (if token0In then reserve1BN else reserve0BN);
         amountInWithFee = amountInBN * feeMultiplier;
         numerator = amountInWithFee * reserveOut;
         denominator = (reserveIn * feeDivisor) + amountInWithFee
     in and_then (bigint_div numerator denominator) (\<lambda>expectedOut.
        let slippageMultiplier = 10000 - slippageBasisPoints
        in bigint_div (expectedOut * slippageMultiplier) 10000))))"

record arbitrage_slippage =
  as_minAmountOut1 :: int
  as_minAmountOut2 :: int
  as_expectedProfit :: "int option"

definition calculateArbitrageSlippage ::
  "int \<Rightarrow> opportunity \<Rightarrow> int option \<Rightarrow> js_error + arbitrage_slippage" where
  "calculateArbitrageSlippage slippageBasisPoints opp flashLoanAmount =
     and_then (calculateMinAmountOut slippageBasisPoints flashLoanAmount
                 (js_or (reserve0A opp) (reserves0A opp))
                 (js_or (reserve1A opp) (reserves1A opp)) True 30) (\<lambda>minAmountOut1.
     and_then (calculateMinAmountOut slippageBasisPoints (Some minAmountOut1)
                 (js_or (reserve0B opp) (reserves0B opp))
                 (js_or (reserve1B opp) (reserves1B opp)) False 30) (\<lambda>minAmountOut2.
     Inr \<lparr> as_minAmountOut1 = minAmountOut1, as_minAmountOut2 = minAmountOut2,
           as_expectedProfit = opp_profit opp \<rparr>))"

definition isProfitableWithSlippage :: "int option \<Rightarrow> int option \<Rightarrow> js_error + bool" where
  "isProfitableWithSlippage flashLoanAmount minAmountOut2 =
     and_then (toBigInt flashLoanAmount) (\<lambda>amountBorrowed.
     and_then (bigint_div (amountBorrowed * 5) 10000) (\<lambda>premium.
     let amountOwed = amountBorrowed + premium in
     and_then (toBigInt minAmountOut2) (\<lambda>minOutput.
     Inr (minOutput > amountOwed))))"

text \<open>
  The result of \<^verbatim>\<open>getProtectedParameters\<close>. Its display field \<^verbatim>\<open>slippagePercent\<close>
  (a floating-point quotient) is not represented.
\<close>

record protected_parameters =
  minAmountOut1 :: int
  minAmountOut2 :: int
  expectedProfit :: "int option"
  isProfitable :: bool
  flashLoanAmount :: "int option"

definition getProtectedParameters ::
  "int \<Rightarrow> opportunity \<Rightarrow> int option \<Rightarrow> js_error + protected_parameters" where
  "getProtectedParameters slippageBasisPoints opp amt =
     and_then (calculateArbitrageSlippage slippageBasisPoints opp amt) (\<lambda>s.
     and_then (isProfitableWithSlippage amt (Some (as_minAmountOut2 s))) (\<lambda>p.
     Inr \<lparr> minAmountOut1 = as_minAmountOut1 s, minAmountOut2 = as_minAmountOut2 s,
           expectedProfit = as_expectedProfit s, isProfitable = p,
           flashLoanAmount = amt \<rparr>))"

text \<open>A sample opportunity: venue A holds (1000000, 50000), venue B holds (1000000, 40000).\<close>

definition sample_opportunity :: opportunity where
  "sample_opportunity =
     \<lparr> reserve0A = Some 1000000, reserves0A = None, reserve1A = Some 50000, reserves1A = None,
       reserve0B = Some 1000000, reserves0B = None, reserve1B = Some 40000, reserves1B = None,
       opp_profit = None \<rparr>"

section \<open>Opportunity scanner\<close>

text \<open>
  \<^verbatim>\<open>UniswapScanner\<close>. Reading a pair contract (\<^verbatim>\<open>getReserves\<close>: the reserves and the two
  token addresses) is a call to the outside that may fail; it is a parameter \<open>reader\<close> of
  the scan, as is the clock read for the \<^verbatim>\<open>timestamp\<close> of a result.
\<close>

record reserves =
  reserve0 :: int
  reserve1 :: int
  token0 :: string
  token1 :: string

text \<open>\<^verbatim>\<open>s.toLowerCase()\<close> on the ASCII letters of an address.\<close>

definition lower_char :: "char \<Rightarrow> char" where
  "lower_char c =
     (let n = (of_char c :: nat) in if 65 \<le> n \<and> n \<le> 90 then char_of (n + 32) else c)"

definition toLowerCase :: "string \<Rightarrow> string" where
  "toLowerCase s = map lower_char s"

text \<open>
  The result of \<^verbatim>\<open>findArbitrage\<close>. \<open>findArbitrage_try\<close> is the body of its
  \<^verbatim>\<open>try\<close> block; when it throws, the result is \<^verbatim>\<open>{ profitable: false, profit: 0n }\<close>
  and the other fields are absent (\<open>None\<close>).
\<close>

record arb_result =
  arb_profitable :: bool
  arb_profit :: int
  arb_amountIn :: "int option"
  arb_amountOut :: "int option"
  arb_path :: "string list option"
  arb_pathReverse :: "string list option"
  arb_pair1 :: "string option"
  arb_pair2 :: "string option"
  arb_timestamp :: "int option"

definition findArbitrage_try ::
  "(string \<Rightarrow> js_error + reserves) \<Rightarrow> int \<Rightarrow> string \<Rightarrow> string \<Rightarrow> string \<Rightarrow> int
     \<Rightarrow> js_error + arb_result" where
  "findArbitrage_try reader now pair1Address pair2Address tokenIn amountIn =
     and_then (reader pair1Address) (\<lambda>reserves1.
     and_then (reader pair2Address) (\<lambda>reserves2.
     let isToken0_1 = (toLowerCase (token0 reserves1) = toLowerCase tokenIn);
         reserveIn1 = (if isToken0_1 then reserve0 reserves1 else reserve1 reserves1);
         reserveOut1 = (if isToken0_1 then reserve1 reserves1 else reserve0 reserves1);
         tokenOut = (if isToken0_1 then token1 reserves1 else token0 reserves1);
         isToken0_2 = (toLowerCase (token0 reserves2) = toLowerCase tokenOut);
         reserveIn2 = (if isToken0_2 then reserve0 reserves2 else reserve1 reserves2);
         reserveOut2 = (if isToken0_2 then reserve1 reserves2 else reserve0 reserves2) in
     and_then (calculateAmountOut amountIn reserveIn1 reserveOut1) (\<lambda>amountOut1.
     and_then (calculateAmountOut amountOut1 reserveIn2 reserveOut2) (\<lambda>amountOut2.
     let profit = (if amountOut2 > amountIn then amountOut2 - amountIn else 0);
         profitable = (profit > 0) in
     Inr \<lparr> arb_profitable = profitable, arb_profit = profit,
           arb_amountIn = Some amountIn, arb_amountOut = Some amountOut2,
           arb_path = Some [tokenIn, tokenOut], arb_pathReverse = Some [tokenOut, tokenIn],
           arb_pair1 = Some pair1Address, arb_pair2 = Some pair2Address,
           arb_timestamp = Some now \<rparr>))))"

definition findArbitrage ::
  "(string \<Rightarrow> js_error + reserves) \<Rightarrow> int \<Rightarrow> string \<Rightarrow> string \<Rightarrow> string \<Rightarrow> int \<Rightarrow> arb_result" where
  "findArbitrage reader now pair1Address pair2Address tokenIn amountIn =
     (case findArbitrage_try reader now pair1Address pair2Address tokenIn amountIn of
        Inl e \<Rightarrow>
          \<lparr> arb_profitable = False, arb_profit = 0, arb_amountIn = None, arb_amountOut = None,
            arb_path = None, arb_pathReverse = None, arb_pair1 = None, arb_pair2 = None,
            arb_timestamp = None \<rparr>
      | Inr result \<Rightarrow> result)"

text \<open>An entry of \<^verbatim>\<open>this.pairs\<close> and an opportunity pushed by \<^verbatim>\<open>scanAll\<close>.\<close>

record pair_entry =
  pair_address :: string
  dex :: string
  pair_token0 :: string
  pair_token1 :: string

record scan_opportunity = arb_result +
  dex1 :: string
  dex2 :: string
  pairName :: string
  opp_token0 :: string
  opp_token1 :: string

text \<open>
  \<^verbatim>\<open>key.split('-').slice(0, 2).sort().join('')\<close>: the pieces between dashes, the first
  two of them, in the order of their code units, glued together.
\<close>

fun split_dash :: "string \<Rightarrow> string list" where
  "split_dash [] = [] # []"
| "split_dash (c # cs) =
     (if c = CHR ''-'' then [] # split_dash cs
      else (case split_dash cs of [] \<Rightarrow> [c] # [] | w # ws \<Rightarrow> (c # w) # ws))"

fun str_less :: "string \<Rightarrow> string \<Rightarrow> bool" where
  "str_less [] [] = False"
| "str_less [] (y # ys) = True"
| "str_less (x # xs) [] = False"
| "str_less (x # xs) (y # ys) =
     ((of_char x :: nat) < of_char y \<or> (x = y \<and> str_less xs ys))"

definition sort_strings2 :: "string list \<Rightarrow> string list" where
  "sort_strings2 xs = (case xs of [a, b] \<Rightarrow> if str_less b a then [b, a] else [a, b] | _ \<Rightarrow> xs)"

definition token_key :: "string \<Rightarrow> string" where
  "token_key key = concat (sort_strings2 (take 2 (split_dash key)))"

text \<open>
  \<^verbatim>\<open>Array.prototype.sort(cmp)\<close>, as an insertion sort: each element in turn is put before
  the first element of the sorted part that it compares below (\<open>cmp x y < 0\<close>).
\<close>

fun insert_by :: "('a \<Rightarrow> 'a \<Rightarrow> int) \<Rightarrow> 'a \<Rightarrow> 'a list \<Rightarrow> 'a list" where
  "insert_by cmp x [] = [x]"
| "insert_by cmp x (y # ys) = (if cmp x y < 0 then x # y # ys else y # insert_by cmp x ys)"

definition array_sort :: "('a \<Rightarrow> 'a \<Rightarrow> int) \<Rightarrow> 'a list \<Rightarrow> 'a list" where
  "array_sort cmp xs = foldl (\<lambda>sorted x. insert_by cmp x sorted) [] xs"

text \<open>The comparator of \<^verbatim>\<open>scanAll\<close>: \<^verbatim>\<open>(a, b) => (b.profit > a.profit ? 1 : -1)\<close>.\<close>

definition by_profit :: "scan_opportunity \<Rightarrow> scan_opportunity \<Rightarrow> int" where
  "by_profit a b = (if arb_profit b > arb_profit a then 1 else - 1)"

text \<open>
  The body of the inner loop of \<^verbatim>\<open>scanAll\<close> for the keys \<open>key1\<close> (index \<open>i\<close>) and \<open>key2\<close>
  (index \<open>j\<close>): the opportunities it pushes.
\<close>

definition scan_pair ::
  "(string \<Rightarrow> js_error + reserves) \<Rightarrow> (string \<Rightarrow> string \<Rightarrow> int) \<Rightarrow> string \<Rightarrow> int
     \<Rightarrow> string \<times> pair_entry \<Rightarrow> string \<times> pair_entry \<Rightarrow> scan_opportunity list" where
  "scan_pair reader clock tokenIn amountIn e1 e2 =
     (let pair1 = snd e1; pair2 = snd e2;
          tokens1 = token_key (fst e1); tokens2 = token_key (fst e2) in
      if tokens1 = tokens2 \<and> dex pair1 \<noteq> dex pair2 then
        (let result = findArbitrage reader (clock (pair_address pair1) (pair_address pair2))
                        (pair_address pair1) (pair_address pair2) tokenIn amountIn in
         if arb_profitable result then
           [arb_result.extend result
              \<lparr> dex1 = dex pair1, dex2 = dex pair2, pairName = fst e1,
                opp_token0 = pair_token0 pair1, opp_token1 = pair_token1 pair1 \<rparr>]
         else [])
      else [])"

text \<open>The two loops: every entry with every later entry, in the order of the keys.\<close>

fun scan_loops ::
  "(string \<Rightarrow> js_error + reserves) \<Rightarrow> (string \<Rightarrow> string \<Rightarrow> int) \<Rightarrow> string \<Rightarrow> int
     \<Rightarrow> (string \<times> pair_entry) list \<Rightarrow> scan_opportunity list" where
  "scan_loops reader clock tokenIn amountIn [] = []"
| "scan_loops reader clock tokenIn amountIn (e1 # rest) =
     concat (map (scan_pair reader clock tokenIn amountIn e1) rest)
       @ scan_loops reader clock tokenIn amountIn rest"

definition scanAll ::
  "(string \<Rightarrow> js_error + reserves) \<Rightarrow> (string \<Rightarrow> string \<Rightarrow> int) \<Rightarrow> (string \<times> pair_entry) list
     \<Rightarrow> string \<Rightarrow> int \<Rightarrow> scan_opportunity list" where
  "scanAll reader clock pairs tokenIn amountIn =
     array_sort by_profit (scan_loops reader clock tokenIn amountIn pairs)"

text \<open>
  A test scan: one token pair quoted on three venues whose reserves differ; the pair
  contract of the fourth venue cannot be read.
\<close>

definition sample_pairs :: "(string \<times> pair_entry) list" where
  "sample_pairs =
     [(''WETH-USDC-sushi'', \<lparr> pair_address = ''0xB2'', dex = ''sushiswap'',
                                 pair_token0 = ''USDC'', pair_token1 = ''WETH'' \<rparr>),
      (''WETH-USDC-uni'', \<lparr> pair_address = ''0xA1'', dex = ''uniswap'',
                               pair_token0 = ''USDC'', pair_token1 = ''WETH'' \<rparr>),
      (''WETH-USDC-shiba'', \<lparr> pair_address = ''0xC3'', dex = ''shibaswap'',
                                 pair_token0 = ''USDC'', pair_token1 = ''WETH'' \<rparr>),
      (''WETH-USDC-dead'', \<lparr> pair_address = ''0xD4'', dex = ''deadswap'',
                                pair_token0 = ''USDC'', pair_token1 = ''WETH'' \<rparr>)]"

definition sample_reader :: "string \<Rightarrow> js_error + reserves" where
  "sample_reader a =
     (if a = ''0xA1'' then
        Inr \<lparr> reserve0 = 2000000, reserve1 = 1000, token0 = ''0xUsdc'', token1 = ''0xWeth'' \<rparr>
      else if a = ''0xB2'' then
        Inr \<lparr> reserve0 = 1800000, reserve1 = 1000, token0 = ''0xUsdc'', token1 = ''0xWeth'' \<rparr>
      else if a = ''0xC3'' then
        Inr \<lparr> reserve0 = 1500000, reserve1 = 1000, token0 = ''0xUsdc'', token1 = ''0xWeth'' \<rparr>
      else Inl CallException)"

section \<open>Circuit breaker\<close>

text \<open>
  \<^verbatim>\<open>CircuitBreaker\<close>. Times are milliseconds as returned by \<^verbatim>\<open>Date.now()\<close>, passed in
  explicitly. \<^verbatim>\<open>lastFailureTime\<close> starts as \<^verbatim>\<open>null\<close>, which the subtraction in
  \<^verbatim>\<open>shouldAllowRequest\<close> coerces to 0.
\<close>

datatype breaker_state = CLOSED | OPEN | HALF_OPEN

record CircuitBreaker =
  maxFailures :: int
  resetTimeout :: int
  minProfitThreshold :: int
  failures :: int
  totalProfit :: int
  state :: breaker_state
  lastFailureTime :: "int option"

text \<open>\<^verbatim>\<open>options.x || d\<close> on a number: \<^verbatim>\<open>undefined\<close>, \<^verbatim>\<open>NaN\<close> (both \<open>None\<close>) and 0 are falsy.\<close>

definition num_or :: "int option \<Rightarrow> int \<Rightarrow> int" where
  "num_or v d = (case v of None \<Rightarrow> d | Some n \<Rightarrow> if n = 0 then d else n)"

definition new_CircuitBreaker :: "int option \<Rightarrow> int option \<Rightarrow> int option \<Rightarrow> CircuitBreaker" where
  "new_CircuitBreaker opt_maxFailures opt_resetTimeout opt_minProfitThreshold =
     \<lparr> maxFailures = num_or opt_maxFailures 5,
       resetTimeout = num_or opt_resetTimeout 60000,
       minProfitThreshold = num_or opt_minProfitThreshold 0,
       failures = 0, totalProfit = 0, state = CLOSED, lastFailureTime = None \<rparr>"

definition recordSuccess :: "CircuitBreaker \<Rightarrow> int \<Rightarrow> CircuitBreaker" where
  "recordSuccess cb profit =
     cb\<lparr> totalProfit := totalProfit cb + profit, failures := 0, state := CLOSED \<rparr>"

text \<open>\<open>recordFailure cb now\<close> returns the updated breaker and the stop signal.\<close>

definition recordFailure :: "CircuitBreaker \<Rightarrow> int \<Rightarrow> CircuitBreaker \<times> bool" where
  "recordFailure cb now =
     (let cb1 = cb\<lparr> failures := failures cb + 1, lastFailureTime := Some now \<rparr>
      in if failures cb1 \<ge> maxFailures cb1 then (cb1\<lparr> state := OPEN \<rparr>, True)
         else (cb1, False))"

definition shouldAllowRequest :: "CircuitBreaker \<Rightarrow> int \<Rightarrow> CircuitBreaker \<times> bool" where
  "shouldAllowRequest cb now =
     (case state cb of
        CLOSED \<Rightarrow> (cb, True)
      | OPEN \<Rightarrow>
          if now - (case lastFailureTime cb of None \<Rightarrow> 0 | Some t \<Rightarrow> t) > resetTimeout cb
          then (cb\<lparr> state := HALF_OPEN, failures := 0 \<rparr>, True)
          else (cb, False)
      | HALF_OPEN \<Rightarrow> (cb, True))"

text \<open>\<open>fail_times n now cb\<close>: \<open>n\<close> calls of \<open>recordFailure\<close> in a row, all at time \<open>now\<close>.\<close>

primrec fail_times :: "nat \<Rightarrow> int \<Rightarrow> CircuitBreaker \<Rightarrow> CircuitBreaker" where
  "fail_times 0 now cb = cb"
| "fail_times (Suc n) now cb = fst (recordFailure (fail_times n now cb) now)"

section \<open>Submission channel of the bot\<close>

text \<open>
  The part of \<^verbatim>\<open>ArbitrageBot\<close> that delivers an opportunity. The outside (clock, lock
  service, node, Flashbots relay) answers through \<open>bot_env\<close>; what the bot sends out is
  recorded, in order, in \<open>actions\<close>.
\<close>

datatype sim_result = SimError | SimFirstRevert | SimPassed

datatype tx_outcome = SubmitThrows | WaitTimeout | Receipt int

datatype bot_action =
    PopulateTransaction
  | GetBlockNumber
  | SignBundle
  | Simulate int
  | SendBundle int
  | WaitInclusion
  | GetFeeData
  | StaticCall
  | SendTransaction
  | WaitReceipt
  | NotifyProfit
  | NotifyError
  | AcquireLock
  | ReleaseLock

record bot_env =
  env_now :: int
  lock_acquired :: bool
  useFlashLoan :: bool
  blockNumber :: int
  simulation :: sim_result
  waitResponse :: int
  gasPrice :: int
  gasTooHigh :: "int \<Rightarrow> int \<Rightarrow> bool"
  staticCall_ok :: bool
  submission :: tx_outcome

text \<open>
  An opportunity as the bot receives it: the reserve fields read by the slippage guard,
  with the time it was found, the amount and the expected profit.
\<close>

record found_opportunity = opportunity +
  found_at :: "int option"
  found_amountIn :: int
  found_profit :: int

record bot =
  breaker :: CircuitBreaker
  executed :: nat
  flashbotsProvider :: bool
  slippageBasisPoints :: int
  actions :: "bot_action list"

definition bot_recordFailure :: "bot_env \<Rightarrow> bot \<Rightarrow> bot" where
  "bot_recordFailure env b = b\<lparr> breaker := fst (recordFailure (breaker b) (env_now env)) \<rparr>"

definition bot_recordSuccess :: "bot \<Rightarrow> bot" where
  "bot_recordSuccess b = b\<lparr> breaker := recordSuccess (breaker b) 0 \<rparr>"

definition act :: "bot_action \<Rightarrow> bot \<Rightarrow> bot" where
  "act a b = b\<lparr> actions := actions b @ [a] \<rparr>"

text \<open>\<^verbatim>\<open>Date.now() - (opportunity.timestamp || Date.now())\<close>.\<close>

definition ageMs :: "bot_env \<Rightarrow> 'a found_opportunity_scheme \<Rightarrow> int" where
  "ageMs env opp = env_now env - num_or (found_at opp) (env_now env)"

text \<open>
  A method either returns with the bot's new state or throws; the state reached when it
  throws stays (nothing is undone), so a thrown error comes with that state.
  \<open>or_throw m b f\<close> continues with the value of \<open>m\<close>, or throws its error in state \<open>b\<close>.
\<close>

type_synonym outcome = "(js_error \<times> bot) + bot"

definition or_throw :: "js_error + 'a \<Rightarrow> bot \<Rightarrow> ('a \<Rightarrow> outcome) \<Rightarrow> outcome" where
  "or_throw m b f = (case m of Inl e \<Rightarrow> Inl (e, b) | Inr x \<Rightarrow> f x)"

text \<open>
  The slippage check of the pre-flight: made only when both reserve fields of venue A are
  present; \<open>False\<close> means the opportunity is skipped.
\<close>

definition slippage_check :: "'a found_opportunity_scheme \<Rightarrow> bot \<Rightarrow> js_error + bool" where
  "slippage_check opp b =
     (if reserve0A opp \<noteq> None \<and> reserve1A opp \<noteq> None then
        and_then (getProtectedParameters (slippageBasisPoints b) (opportunity.truncate opp)
                    (Some (found_amountIn opp)))
          (\<lambda>slippageProtection. Inr (isProfitable slippageProtection))
      else Inr True)"

text \<open>
  The first method named \<^verbatim>\<open>executeViaMempool\<close> in the class body: the Flashbots bundle
  path (stale check, slippage check twice, bundle, simulation, submission, inclusion).
\<close>

definition executeViaMempool_first :: "bot_env \<Rightarrow> found_opportunity \<Rightarrow> bot \<Rightarrow> outcome" where
  "executeViaMempool_first env opp b =
     (if ageMs env opp > 3000 then Inr b else
      or_throw (slippage_check opp b) b (\<lambda>profitable1.
      if \<not> profitable1 then Inr b else
      or_throw (slippage_check opp b) b (\<lambda>profitable2.
      if \<not> profitable2 then Inr b else
      let b1 = act GetBlockNumber (act PopulateTransaction b);
          targetBlock = blockNumber env + 1;
          b2 = act (Simulate targetBlock) (act SignBundle b1) in
      if simulation env \<noteq> SimPassed then Inr (bot_recordFailure env b2) else
      let b3 = act WaitInclusion (act (SendBundle targetBlock) b2) in
      if waitResponse env = 0 then
        Inr (act NotifyProfit (bot_recordSuccess (b3\<lparr> executed := executed b3 + 1 \<rparr>)))
      else if waitResponse env = 1 then Inr b3
      else Inr (bot_recordFailure env b3))))"

text \<open>
  The second method named \<^verbatim>\<open>executeViaMempool\<close>: the public path (stale check, gas
  check, static call, transaction). The gas check is made on floating-point numbers
  (\<^verbatim>\<open>parseFloat(formatEther(cost)) > parseFloat(formatEther(profit)) * 0.5\<close>); its outcome
  for a cost and a profit in wei is the parameter \<open>gasTooHigh\<close> of the outside.
\<close>

definition executeViaMempool_second :: "bot_env \<Rightarrow> found_opportunity \<Rightarrow> bot \<Rightarrow> outcome" where
  "executeViaMempool_second env opp b =
     (if ageMs env opp > 3000 then Inr b else
      let b1 = act GetFeeData b in
      if gasTooHigh env (gasPrice env * 800000) (found_profit opp) then Inr b1 else
      let b2 = act StaticCall b1 in
      if \<not> staticCall_ok env then Inr (bot_recordFailure env b2) else
      let b3 = act SendTransaction b2 in
      case submission env of
        SubmitThrows \<Rightarrow> Inr (bot_recordFailure env b3)
      | WaitTimeout \<Rightarrow> Inr (bot_recordFailure env (act WaitReceipt b3))
      | Receipt status \<Rightarrow>
          if status = 1 then
            Inr (act NotifyProfit
                  (bot_recordSuccess ((act WaitReceipt b3)\<lparr> executed := executed b3 + 1 \<rparr>)))
          else Inr (bot_recordFailure env (act WaitReceipt b3)))"

definition executeLegacyArbitrage :: "bot_env \<Rightarrow> found_opportunity \<Rightarrow> bot \<Rightarrow> outcome" where
  "executeLegacyArbitrage env opp b =
     (let b1 = act StaticCall b in
      if \<not> staticCall_ok env then Inr (bot_recordFailure env b1) else
      let b2 = act SendTransaction b1 in
      case submission env of
        SubmitThrows \<Rightarrow> Inl (CallException, b2)
      | WaitTimeout \<Rightarrow> Inl (CallException, act WaitReceipt b2)
      | Receipt status \<Rightarrow>
          if status = 1 then
            Inr (act NotifyProfit
                  (bot_recordSuccess ((act WaitReceipt b2)\<lparr> executed := executed b2 + 1 \<rparr>)))
          else Inr (bot_recordFailure env (act WaitReceipt b2)))"

text \<open>
  The methods of the class that deliver an opportunity, in the order of the class body.
  A class body that defines a name twice keeps the later definition; calling a name that
  no method has throws a \<^verbatim>\<open>TypeError\<close> (``is not a function'').
\<close>

definition ArbitrageBot_methods ::
  "(string \<times> (bot_env \<Rightarrow> found_opportunity \<Rightarrow> bot \<Rightarrow> outcome)) list" where
  "ArbitrageBot_methods =
     [(''executeViaMempool'', executeViaMempool_first),
      (''executeViaMempool'', executeViaMempool_second),
      (''executeLegacyArbitrage'', executeLegacyArbitrage)]"

definition lookup_method ::
  "string \<Rightarrow> (bot_env \<Rightarrow> found_opportunity \<Rightarrow> bot \<Rightarrow> outcome) option" where
  "lookup_method name = map_of (rev ArbitrageBot_methods) name"

definition call_method :: "string \<Rightarrow> bot_env \<Rightarrow> found_opportunity \<Rightarrow> bot \<Rightarrow> outcome" where
  "call_method name env opp b =
     (case lookup_method name of None \<Rightarrow> Inl (TypeError, b) | Some body \<Rightarrow> body env opp b)"

definition executeFlashLoanArbitrage :: "bot_env \<Rightarrow> found_opportunity \<Rightarrow> bot \<Rightarrow> outcome" where
  "executeFlashLoanArbitrage env opp b =
     (if flashbotsProvider b then call_method ''executeViaFlashbots'' env opp b
      else call_method ''executeViaMempool'' env opp b)"

text \<open>
  \<^verbatim>\<open>executeArbitrageReal\<close>: under the lock, the chosen path; an exception is caught, a
  failure recorded and an error notified; the lock is released in any case.
\<close>

definition executeArbitrageReal :: "bot_env \<Rightarrow> found_opportunity \<Rightarrow> bot \<Rightarrow> bot" where
  "executeArbitrageReal env opp b =
     (let b1 = act AcquireLock b in
      if \<not> lock_acquired env then b1 else
      let b2 = (case (if useFlashLoan env then executeFlashLoanArbitrage env opp b1
                      else call_method ''executeLegacyArbitrage'' env opp b1) of
                  Inr b' \<Rightarrow> b'
                | Inl (e, b') \<Rightarrow> act NotifyError (bot_recordFailure env b'))
      in act ReleaseLock b2)"

text \<open>A fresh bot with the Flashbots provider available, an opportunity and an outside.\<close>

definition sample_bot :: bot where
  "sample_bot =
     \<lparr> breaker = new_CircuitBreaker (Some 5) (Some 60000) None, executed = 0,
       flashbotsProvider = True, slippageBasisPoints = 200, actions = [] \<rparr>"

definition sample_found :: found_opportunity where
  "sample_found =
     opportunity.extend sample_opportunity
       \<lparr> found_at = Some 1000, found_amountIn = 1000, found_profit = 170 \<rparr>"

definition sample_bot_env :: bot_env where
  "sample_bot_env =
     \<lparr> env_now = 1500, lock_acquired = True, useFlashLoan = True, blockNumber = 19000000,
       simulation = SimPassed, waitResponse = 0, gasPrice = 0,
       gasTooHigh = (\<lambda>cost profit. False), staticCall_ok = True, submission = Receipt 1 \<rparr>"

section \<open>Ledger-side arbitrage state machine\<close>

text \<open>
  The contract \<^verbatim>\<open>FlashArbitrage\<close> (Solidity 0.8: arithmetic on \<^verbatim>\<open>uint256\<close> is checked
  and reverts with \<^verbatim>\<open>Panic(0x11)\<close> on overflow or underflow; an out-of-range array read
  reverts with \<^verbatim>\<open>Panic(0x32)\<close>). A \<^verbatim>\<open>uint256\<close> is a natural number with the range check
  written out; an address is a number, 0 the zero address.
\<close>

type_synonym address = nat

datatype evm_error = Revert string | Panic nat

definition MAX_UINT256 :: nat where
  "MAX_UINT256 = 2 ^ 256 - 1"

definition checked_add :: "nat \<Rightarrow> nat \<Rightarrow> evm_error + nat" where
  "checked_add a b = (if a + b \<le> MAX_UINT256 then Inr (a + b) else Inl (Panic 17))"

definition checked_sub :: "nat \<Rightarrow> nat \<Rightarrow> evm_error + nat" where
  "checked_sub a b = (if b \<le> a then Inr (a - b) else Inl (Panic 17))"

definition checked_mul :: "nat \<Rightarrow> nat \<Rightarrow> evm_error + nat" where
  "checked_mul a b = (if a * b \<le> MAX_UINT256 then Inr (a * b) else Inl (Panic 17))"

text \<open>\<open>require\<close> reverts with its message when the condition is false.\<close>

definition require :: "bool \<Rightarrow> string \<Rightarrow> evm_error + unit" where
  "require cond message = (if cond then Inr () else Inl (Revert message))"

text \<open>\<^verbatim>\<open>xs[xs.length - 1]\<close>: the subtraction underflows on an empty array.\<close>

definition last_element :: "'a list \<Rightarrow> evm_error + 'a" where
  "last_element xs =
     and_then (checked_sub (length xs) 1) (\<lambda>i.
     if i < length xs then Inr (xs ! i) else Inl (Panic 50))"

definition first_element :: "'a list \<Rightarrow> evm_error + 'a" where
  "first_element xs = (if 0 < length xs then Inr (xs ! 0) else Inl (Panic 50))"

text \<open>
  Events of the transaction log, and the calls the contract makes to other contracts.
  The list of calls is an observation of the execution, kept to state which calls were
  made and with which arguments; an attempted call that reverted and was caught is listed.
\<close>

datatype event =
    FlashLoanCalled address address nat
  | FlashLoanExecuted address nat nat nat

datatype ext_call =
    Approve address address nat
  | Swap address nat nat "address list" address nat

text \<open>The bytes handed to the callback: \<^verbatim>\<open>abi.encode(path1, path2, minProfit)\<close>.\<close>

record arb_params =
  p_path1 :: "address list"
  p_path2 :: "address list"
  p_minProfit :: nat

text \<open>
  The ledger: the storage of \<^verbatim>\<open>FlashArbitrage\<close> (with the state of the inherited
  \<^verbatim>\<open>Ownable\<close>, \<^verbatim>\<open>ReentrancyGuard\<close> and \<^verbatim>\<open>Pausable\<close>), the storage \<open>world\<close> of every other
  contract (token balances and allowances, pool reserves), the event log and the calls made.
\<close>

record 'w chain =
  totalProfits :: nat
  owner :: address
  entered :: bool
  paused :: bool
  aavePool :: address
  router1 :: address
  router2 :: address
  poolAB :: address
  poolBA :: address
  tokenA :: address
  inFlashLoan :: bool
  world :: 'w
  events :: "event list"
  calls :: "ext_call list"

text \<open>
  The environment of an execution: the contract's own address, the block timestamp, and
  the behaviour of the external contracts. \<open>erc20_approve token caller spender amount\<close> and
  \<open>router_swap router caller amountIn amountOutMin path to deadline\<close> either revert or
  return with a new world.
\<close>

record 'w env =
  self :: address
  block_timestamp :: nat
  erc20_approve :: "address \<Rightarrow> address \<Rightarrow> address \<Rightarrow> nat \<Rightarrow> 'w \<Rightarrow> evm_error + 'w"
  router_swap ::
    "address \<Rightarrow> address \<Rightarrow> nat \<Rightarrow> nat \<Rightarrow> address list \<Rightarrow> address \<Rightarrow> nat \<Rightarrow> 'w
       \<Rightarrow> evm_error + (nat list \<times> 'w)"

text \<open>\<^verbatim>\<open>IERC20(token).approve(spender, amount)\<close> called by the contract.\<close>

definition approve :: "'w env \<Rightarrow> address \<Rightarrow> address \<Rightarrow> nat \<Rightarrow> 'w chain \<Rightarrow> evm_error + 'w chain" where
  "approve env token spender amount c =
     (case erc20_approve env token (self env) spender amount (world c) of
        Inl e \<Rightarrow> Inl e
      | Inr w \<Rightarrow> Inr (c\<lparr> world := w, calls := calls c @ [Approve token spender amount] \<rparr>))"

text \<open>\<^verbatim>\<open>router.swapExactTokensForTokens(amountIn, amountOutMin, path, address(this), deadline)\<close>.\<close>

definition swapExactTokensForTokens ::
  "'w env \<Rightarrow> address \<Rightarrow> nat \<Rightarrow> nat \<Rightarrow> address list \<Rightarrow> nat \<Rightarrow> 'w chain
     \<Rightarrow> evm_error + (nat list \<times> 'w chain)" where
  "swapExactTokensForTokens env router amountIn amountOutMin path deadline c =
     (case router_swap env router (self env) amountIn amountOutMin path (self env) deadline (world c) of
        Inl e \<Rightarrow> Inl e
      | Inr (amounts, w) \<Rightarrow>
          Inr (amounts,
               c\<lparr> world := w,
                  calls := calls c @ [Swap router amountIn amountOutMin path (self env) deadline] \<rparr>))"

text \<open>
  The fallback loop of \<^verbatim>\<open>_executeSwaps\<close> over the array \<^verbatim>\<open>routers\<close>, with
  \<^verbatim>\<open>amountReceived\<close> initially 0. A reverting call is caught and the next router is
  tried; since the effects of a reverted call are undone, only the attempt is noted. The
  first call that returns ends the loop (\<^verbatim>\<open>break\<close>) with the last element of its result.
\<close>

fun try_routers ::
  "'w env \<Rightarrow> address list \<Rightarrow> nat \<Rightarrow> nat \<Rightarrow> address list \<Rightarrow> 'w chain \<Rightarrow> evm_error + (nat \<times> 'w chain)" where
  "try_routers env [] intermediateAmount minAmountOut path2 c = Inr (0, c)"
| "try_routers env (r # rs) intermediateAmount minAmountOut path2 c =
     and_then (checked_add (block_timestamp env) 300) (\<lambda>deadline.
     case swapExactTokensForTokens env r intermediateAmount minAmountOut path2 deadline c of
       Inl e \<Rightarrow>
         try_routers env rs intermediateAmount minAmountOut path2
           (c\<lparr> calls := calls c @ [Swap r intermediateAmount minAmountOut path2 (self env) deadline] \<rparr>)
     | Inr (amounts, c') \<Rightarrow>
         and_then (last_element amounts) (\<lambda>amountReceived. Inr (amountReceived, c')))"

text \<open>
  \<^verbatim>\<open>_executeSwaps\<close>, in two parts. \<open>first_hop\<close> is its first part: the approval and the
  swap on \<^verbatim>\<open>router1\<close>, and the approval of the intermediate amount to \<^verbatim>\<open>router2\<close>; it
  returns the intermediate amount.
\<close>

definition first_hop ::
  "'w env \<Rightarrow> address \<Rightarrow> nat \<Rightarrow> address list \<Rightarrow> 'w chain \<Rightarrow> evm_error + (nat \<times> 'w chain)" where
  "first_hop env asset amount path1 c =
     (let minAmountOut1 = 0 in
      and_then (approve env asset (router1 c) amount c) (\<lambda>c1.
      and_then (checked_add (block_timestamp env) 300) (\<lambda>deadline.
      and_then (swapExactTokensForTokens env (router1 c1) amount minAmountOut1 path1 deadline c1)
        (\<lambda>(amounts1, c2).
      and_then (last_element path1) (\<lambda>intermediateToken.
      and_then (last_element amounts1) (\<lambda>intermediateAmount.
      and_then (approve env intermediateToken (router2 c2) intermediateAmount c2) (\<lambda>c3.
      Inr (intermediateAmount, c3))))))))"

text \<open>
  The whole of \<^verbatim>\<open>_executeSwaps\<close>: after the first part, the minimum output of the final
  swap, the fallback loop and the two checks on the amount received.
\<close>

definition executeSwaps ::
  "'w env \<Rightarrow> address \<Rightarrow> nat \<Rightarrow> address list \<Rightarrow> address list \<Rightarrow> 'w chain \<Rightarrow> evm_error + (nat \<times> 'w chain)" where
  "executeSwaps env asset amount path1 path2 c =
     and_then (first_hop env asset amount path1 c) (\<lambda>(intermediateAmount, c3).
     and_then (checked_mul amount 101) (\<lambda>m.
     let minAmountOut = m div 100;
         routers = [router2 c3, router1 c3] in
     and_then (try_routers env routers intermediateAmount minAmountOut path2 c3)
       (\<lambda>(amountReceived, c4).
     and_then (require (amountReceived > 0) ''All swap attempts failed'') (\<lambda>_.
     and_then (checked_mul amount 50) (\<lambda>f.
     and_then (checked_add amount (f div 10000)) (\<lambda>minimum.
     and_then (require (amountReceived \<ge> minimum) ''Arbitrage not profitable'') (\<lambda>_.
     Inr (amountReceived, c4))))))))"

text \<open>
  The loan callback. \<open>sender\<close> is \<^verbatim>\<open>msg.sender\<close>. The returned boolean is the callback's
  return value.
\<close>

definition executeOperation ::
  "'w env \<Rightarrow> address \<Rightarrow> address \<Rightarrow> nat \<Rightarrow> nat \<Rightarrow> address \<Rightarrow> arb_params \<Rightarrow> 'w chain
     \<Rightarrow> evm_error + (bool \<times> 'w chain)" where
  "executeOperation env sender asset amount premium initiator params c =
     and_then (require (sender = aavePool c) ''Caller must be Aave Pool'') (\<lambda>_.
     and_then (require (initiator = self env) ''Initiator must be this contract'') (\<lambda>_.
     and_then (require (inFlashLoan c) ''Not in flash loan'') (\<lambda>_.
     and_then (executeSwaps env asset amount (p_path1 params) (p_path2 params) c)
       (\<lambda>(finalAmount, c1).
     and_then (checked_add amount premium) (\<lambda>amountOwed.
     and_then (require (finalAmount > amountOwed) ''Arbitrage not profitable'') (\<lambda>_.
     and_then (checked_sub finalAmount amountOwed) (\<lambda>profit.
     and_then (require (profit \<ge> p_minProfit params) ''Profit below minimum threshold'') (\<lambda>_.
     and_then (approve env asset (aavePool c1) amountOwed c1) (\<lambda>c2.
     and_then (checked_add (totalProfits c2) profit) (\<lambda>newTotal.
     Inr (True,
          c2\<lparr> totalProfits := newTotal,
               events := events c2 @ [FlashLoanExecuted asset amount profit premium] \<rparr>)))))))))))"

text \<open>
  The lender, as the repository's \<^verbatim>\<open>MockAavePool.flashLoanSimple\<close>: it computes the
  premium, calls the receiver's \<^verbatim>\<open>executeOperation\<close> with itself as sender and its own
  caller as initiator, and requires the call to succeed. The receiver is this contract;
  \<open>pool\<close> is the lender's address and \<open>caller\<close> its \<^verbatim>\<open>msg.sender\<close>.
\<close>

definition flashLoanSimple ::
  "'w env \<Rightarrow> address \<Rightarrow> address \<Rightarrow> address \<Rightarrow> address \<Rightarrow> nat \<Rightarrow> arb_params \<Rightarrow> 'w chain
     \<Rightarrow> evm_error + 'w chain" where
  "flashLoanSimple env pool caller receiverAddress asset amount params c =
     (let c1 = c\<lparr> events := events c @ [FlashLoanCalled receiverAddress asset amount] \<rparr> in
      and_then (checked_mul amount 5) (\<lambda>m.
      let premium = m div 10000 in
      case executeOperation env pool asset amount premium caller params c1 of
        Inl e \<Rightarrow> Inl (Revert ''Flash loan callback failed'')
      | Inr (ok, c2) \<Rightarrow> Inr c2))"

text \<open>
  The entry point, with its modifiers \<^verbatim>\<open>onlyOwner nonReentrant whenNotPaused\<close> in this
  order. \<open>sender\<close> is \<^verbatim>\<open>msg.sender\<close>.
\<close>

definition flashArbitrage ::
  "'w env \<Rightarrow> address \<Rightarrow> address \<Rightarrow> nat \<Rightarrow> address list \<Rightarrow> address list \<Rightarrow> nat \<Rightarrow> 'w chain
     \<Rightarrow> evm_error + 'w chain" where
  "flashArbitrage env sender asset amount path1 path2 minProfit c =
     and_then (require (owner c = sender) ''Ownable: caller is not the owner'') (\<lambda>_.
     and_then (require (\<not> entered c) ''ReentrancyGuard: reentrant call'') (\<lambda>_.
     let c0 = c\<lparr> entered := True \<rparr> in
     and_then (require (\<not> paused c0) ''Pausable: paused'') (\<lambda>_.
     and_then (require (aavePool c0 \<noteq> 0) ''Aave Pool not configured'') (\<lambda>_.
     and_then (require (router1 c0 \<noteq> 0 \<and> router2 c0 \<noteq> 0) ''Routers not configured'') (\<lambda>_.
     and_then (require (length path1 \<ge> 2 \<and> length path2 \<ge> 2) ''Invalid paths'') (\<lambda>_.
     and_then (first_element path1) (\<lambda>head1.
     and_then (last_element path2) (\<lambda>last2.
     and_then (require (head1 = asset \<and> last2 = asset)
                 ''Paths must start and end with flash loan asset'') (\<lambda>_.
     let c1 = c0\<lparr> inFlashLoan := True \<rparr>;
         params = \<lparr> p_path1 = path1, p_path2 = path2, p_minProfit = minProfit \<rparr> in
     and_then (flashLoanSimple env (aavePool c1) (self env) (self env) asset amount params c1)
       (\<lambda>c2.
     Inr (c2\<lparr> inFlashLoan := False, entered := False \<rparr>)))))))))))"

text \<open>
  A transaction is all-or-nothing: when the called function reverts, the ledger is the
  one before the call; the error is reported beside it.
\<close>

definition transact ::
  "('w chain \<Rightarrow> evm_error + 'w chain) \<Rightarrow> 'w chain \<Rightarrow> 'w chain \<times> evm_error option" where
  "transact f c = (case f c of Inl e \<Rightarrow> (c, Some e) | Inr c' \<Rightarrow> (c', None))"

text \<open>
  The repository's \<^verbatim>\<open>MockUniswapRouter.swapExactTokensForTokens\<close>: no token moves, the
  output is 1.5 percent above the input.
\<close>

definition MockUniswapRouter_swap ::
  "nat \<Rightarrow> nat \<Rightarrow> nat \<Rightarrow> address list \<Rightarrow> nat \<Rightarrow> evm_error + nat list" where
  "MockUniswapRouter_swap timestamp amountIn amountOutMin path deadline =
     and_then (require (deadline \<ge> timestamp) ''Expired'') (\<lambda>_.
     and_then (checked_mul amountIn 1015) (\<lambda>m.
     let amountOut = m div 1000 in
     and_then (require (amountOut \<ge> amountOutMin) ''Slippage exceeded'') (\<lambda>_.
     let amounts = replicate (length path) 0 in
     and_then (if 0 < length amounts then Inr (amounts[0 := amountIn]) else Inl (Panic 50))
       (\<lambda>amounts.
     and_then (checked_sub (length amounts) 1) (\<lambda>i.
     Inr (amounts[i := amountOut]))))))"

text \<open>
  A call of the callback as a transaction of its own keeps the ledger it returns.
\<close>

definition call_executeOperation ::
  "'w env \<Rightarrow> address \<Rightarrow> address \<Rightarrow> nat \<Rightarrow> nat \<Rightarrow> address \<Rightarrow> arb_params \<Rightarrow> 'w chain
     \<Rightarrow> evm_error + 'w chain" where
  "call_executeOperation env sender asset amount premium initiator params c =
     and_then (executeOperation env sender asset amount premium initiator params c)
       (\<lambda>(ok, c'). Inr c')"

text \<open>
  The ledger as the callback finds it when \<open>flashArbitrage\<close> has passed its checks and the
  lender calls back.
\<close>

definition at_callback :: "'w env \<Rightarrow> address \<Rightarrow> nat \<Rightarrow> 'w chain \<Rightarrow> 'w chain" where
  "at_callback env asset amount c =
     c\<lparr> entered := True, inFlashLoan := True,
        events := events c @ [FlashLoanCalled (self env) asset amount] \<rparr>"

text \<open>
  Test ledgers. \<open>mock_env\<close>: this contract at address 100, every router the mock router,
  every token accepting approvals; no further external state. \<open>fixed_router_env out\<close>: the
  same, except that the router at address 2 returns the output \<open>out\<close> whatever it is asked.
  \<open>mock_chain\<close>: owner 1, lender 9, routers 1 and 2.
\<close>

definition mock_env :: "unit env" where
  "mock_env =
     \<lparr> self = 100, block_timestamp = 1700000000,
       erc20_approve = (\<lambda>token caller spender amount w. Inr w),
       router_swap = (\<lambda>router caller amountIn amountOutMin path to deadline w.
          and_then (MockUniswapRouter_swap 1700000000 amountIn amountOutMin path deadline)
            (\<lambda>amounts. Inr (amounts, w))) \<rparr>"

definition fixed_router_env :: "nat \<Rightarrow> unit env" where
  "fixed_router_env out =
     mock_env\<lparr> router_swap := (\<lambda>router caller amountIn amountOutMin path to deadline w.
          if router = 2 then Inr ([amountIn, out], w)
          else router_swap mock_env router caller amountIn amountOutMin path to deadline w) \<rparr>"

text \<open>
  \<open>reverting_router_env\<close>: as \<open>mock_env\<close>, except that every swap on the router at
  address 2 reverts. \<open>fixed_outputs_env out1 out2\<close>: as \<open>mock_env\<close>, except that the router
  at address 1 returns the output \<open>out1\<close> and the router at address 2 the output \<open>out2\<close>.
\<close>

definition reverting_router_env :: "unit env" where
  "reverting_router_env =
     mock_env\<lparr> router_swap := (\<lambda>router caller amountIn amountOutMin path to deadline w.
          if router = 2 then Inl (Revert ''INSUFFICIENT_LIQUIDITY'')
          else router_swap mock_env router caller amountIn amountOutMin path to deadline w) \<rparr>"

definition fixed_outputs_env :: "nat \<Rightarrow> nat \<Rightarrow> unit env" where
  "fixed_outputs_env out1 out2 =
     mock_env\<lparr> router_swap := (\<lambda>router caller amountIn amountOutMin path to deadline w.
          if router = 1 then Inr ([amountIn, out1], w)
          else if router = 2 then Inr ([amountIn, out2], w)
          else router_swap mock_env router caller amountIn amountOutMin path to deadline w) \<rparr>"

definition mock_chain :: "unit chain" where
  "mock_chain =
     \<lparr> totalProfits = 0, owner = 1, entered = False, paused = False,
       aavePool = 9, router1 = 1, router2 = 2, poolAB = 0, poolBA = 0, tokenA = 0,
       inFlashLoan = False, world = (), events = [], calls = [] \<rparr>"


section \<open>Properties of the pricing arithmetic\<close>

lemma bigint_quot_nonneg: "0 \<le> a \<Longrightarrow> 0 \<le> b \<Longrightarrow> bigint_quot a b = a div b"
  by (cases "a = 0"; cases "b = 0") (simp_all add: bigint_quot_def sgn_if)

text \<open>
  C7. On unsigned amounts with a non-zero denominator, \<open>calculateAmountOut\<close> is the
  integer closed form \<open>amountIn * 997 * reserveOut div (reserveIn * 1000 + amountIn * 997)\<close>
  (rounded down); for \<open>reserveIn = 1000\<close>, \<open>reserveOut = 500\<close>, \<open>amountIn = 10\<close> it is 4.
\<close>

theorem calculateAmountOut_closed_form:
  assumes "0 \<le> amountIn" and "0 \<le> reserveIn" and "0 \<le> reserveOut"
    and "reserveIn * 1000 + amountIn * 997 \<noteq> 0"
  shows "calculateAmountOut amountIn reserveIn reserveOut =
           Inr (amountIn * 997 * reserveOut div (reserveIn * 1000 + amountIn * 997))
         \<and> calculateAmountOut 10 1000 500 = Inr 4"
proof -
  have num: "0 \<le> amountIn * 997 * reserveOut"
    using assms(1,3) by simp
  have den: "0 \<le> reserveIn * 1000 + amountIn * 997"
    using assms(1,2) by simp
  have general: "calculateAmountOut amountIn reserveIn reserveOut =
      Inr (amountIn * 997 * reserveOut div (reserveIn * 1000 + amountIn * 997))"
    using assms(4) bigint_quot_nonneg [OF num den]
    by (simp add: calculateAmountOut_def bigint_div_def Let_def)
  have literal: "calculateAmountOut 10 1000 500 = Inr 4"
    by (simp add: calculateAmountOut_def bigint_div_def bigint_quot_def Let_def)
  from general literal show ?thesis by simp
qed

theorem calculateAmountOut_closed_form_witness:
  "calculateAmountOut 10 1000 500 = Inr (10 * 997 * 500 div (1000 * 1000 + 10 * 997))
   \<and> calculateAmountOut 10 1000 500 = Inr 4"
  using calculateAmountOut_closed_form [of 10 1000 500] by simp

text \<open>
  C9. Whenever \<open>getProtectedParameters\<close> returns for an unsigned loan amount, its
  \<open>isProfitable\<close> flag is true exactly when the returned \<open>minAmountOut2\<close> is strictly
  greater than the loan amount plus the premium \<open>flashLoanAmount * 5 div 10000\<close>.
\<close>

theorem getProtectedParameters_isProfitable:
  assumes "getProtectedParameters bp opp (Some amt) = Inr r" and "0 \<le> amt"
  shows "isProfitable r \<longleftrightarrow> minAmountOut2 r > amt + amt * 5 div 10000"
proof -
  have prem: "bigint_div (amt * 5) 10000 = Inr (amt * 5 div 10000)"
    using assms(2) bigint_quot_nonneg [of "amt * 5" 10000]
    by (simp add: bigint_div_def)
  from assms(1) obtain s where
    s: "calculateArbitrageSlippage bp opp (Some amt) = Inr s"
    and r: "r = \<lparr> minAmountOut1 = as_minAmountOut1 s, minAmountOut2 = as_minAmountOut2 s,
                  expectedProfit = as_expectedProfit s,
                  isProfitable = (as_minAmountOut2 s > amt + amt * 5 div 10000),
                  flashLoanAmount = Some amt \<rparr>"
    by (auto simp: getProtectedParameters_def isProfitableWithSlippage_def toBigInt_def prem
        and_then_def Let_def split: sum.splits)
  from r show ?thesis by simp
qed

theorem getProtectedParameters_isProfitable_witness:
  "getProtectedParameters 200 sample_opportunity (Some 1000) =
     Inr \<lparr> minAmountOut1 = 48, minAmountOut2 = 1170, expectedProfit = None,
           isProfitable = True, flashLoanAmount = Some 1000 \<rparr>
   \<and> 1170 > (1000::int) + 1000 * 5 div 10000"
proof -
  have run: "getProtectedParameters 200 sample_opportunity (Some 1000) =
     Inr \<lparr> minAmountOut1 = 48, minAmountOut2 = 1170, expectedProfit = None,
           isProfitable = True, flashLoanAmount = Some 1000 \<rparr>"
    by (simp add: getProtectedParameters_def calculateArbitrageSlippage_def
        calculateMinAmountOut_def isProfitableWithSlippage_def toBigInt_def js_or_def
        bigint_div_def bigint_quot_def sample_opportunity_def and_then_def Let_def)
  from getProtectedParameters_isProfitable [OF run] show ?thesis
    using run by simp
qed

section \<open>Properties of the circuit breaker\<close>

lemma fail_times_closed:
  assumes "state cb = CLOSED" and "failures cb = 0" and "int k < maxFailures cb"
  shows "state (fail_times k now cb) = CLOSED \<and> failures (fail_times k now cb) = int k
         \<and> maxFailures (fail_times k now cb) = maxFailures cb
         \<and> resetTimeout (fail_times k now cb) = resetTimeout cb"
  using assms by (induction k) (simp_all add: recordFailure_def Let_def)

text \<open>
  The part of the breaker contract that the code keeps: starting closed with no recorded
  failure and a threshold \<open>n \<ge> 1\<close>, fewer than \<open>n\<close> failures leave requests allowed, and
  the \<open>n\<close>-th failure opens the breaker, which then refuses requests until more than
  \<open>resetTimeout\<close> milliseconds have passed.
\<close>

lemma breaker_opens_after_maxFailures:
  assumes "state cb = CLOSED" and "failures cb = 0" and "maxFailures cb = int (Suc m)"
  shows "(\<forall>k\<le>m. snd (shouldAllowRequest (fail_times k t cb) now))
         \<and> state (fail_times (Suc m) t cb) = OPEN
         \<and> (now - t \<le> resetTimeout cb \<longrightarrow> \<not> snd (shouldAllowRequest (fail_times (Suc m) t cb) now))"
proof -
  have before: "snd (shouldAllowRequest (fail_times k t cb) now)" if "k \<le> m" for k
  proof -
    from that assms(3) have "int k < maxFailures cb" by simp
    from fail_times_closed [OF assms(1,2) this, of t] show ?thesis
      by (simp add: shouldAllowRequest_def)
  qed
  have "int m < maxFailures cb" using assms(3) by simp
  from fail_times_closed [OF assms(1,2) this, of t]
  have step: "fail_times (Suc m) t cb =
      (fail_times m t cb)\<lparr> failures := int m + 1, lastFailureTime := Some t, state := OPEN \<rparr>"
    and rt: "resetTimeout (fail_times m t cb) = resetTimeout cb"
    using assms(3) by (simp_all add: recordFailure_def Let_def)
  from step rt before show ?thesis
    by (simp add: shouldAllowRequest_def)
qed

text \<open>
  C3. With the default configuration (five failures, one minute): five failures in a row
  open the breaker and a request at the end of the minute is refused; one millisecond later
  a request is allowed and the breaker is half-open. From there the code departs from the
  claim: a second request is allowed as well, and a failure recorded at once leaves the
  breaker half-open (one failure counted out of five), so the next request is allowed too.
\<close>

theorem breaker_half_open_stays_open_to_requests:
  "state (fail_times 5 0 (new_CircuitBreaker None None None)) = OPEN
   \<and> \<not> snd (shouldAllowRequest (fail_times 5 0 (new_CircuitBreaker None None None)) 60000)
   \<and> snd (shouldAllowRequest (fail_times 5 0 (new_CircuitBreaker None None None)) 60001)
   \<and> state (fst (shouldAllowRequest (fail_times 5 0 (new_CircuitBreaker None None None)) 60001))
        = HALF_OPEN
   \<and> snd (shouldAllowRequest
        (fst (shouldAllowRequest (fail_times 5 0 (new_CircuitBreaker None None None)) 60001)) 60001)
   \<and> state (fst (recordFailure
        (fst (shouldAllowRequest (fail_times 5 0 (new_CircuitBreaker None None None)) 60001)) 60001))
        = HALF_OPEN
   \<and> snd (shouldAllowRequest (fst (recordFailure
        (fst (shouldAllowRequest (fail_times 5 0 (new_CircuitBreaker None None None)) 60001)) 60001))
        60001)"
  by (simp add: eval_nat_numeral new_CircuitBreaker_def num_or_def recordFailure_def
      shouldAllowRequest_def Let_def)

section \<open>Properties of the ledger-side state machine\<close>

subsection \<open>Sequencing and checked arithmetic\<close>

lemma and_then_Inr:
  "and_then m f = Inr y \<longleftrightarrow> (\<exists>x. m = Inr x \<and> f x = Inr y)"
  by (cases m) (simp_all add: and_then_def)

lemma and_then_Inl:
  "and_then m f = Inl e \<longleftrightarrow> m = Inl e \<or> (\<exists>x. m = Inr x \<and> f x = Inl e)"
  by (cases m) (simp_all add: and_then_def)

lemma and_then_unfold [simp]:
  "and_then (Inr x) f = f x" "and_then (Inl e) f = Inl e"
  by (simp_all add: and_then_def)

lemma require_Inr [simp]: "require b msg = Inr u \<longleftrightarrow> b"
  by (simp add: require_def)

lemma require_Inl [simp]: "require b msg = Inl e \<longleftrightarrow> \<not> b \<and> e = Revert msg"
  by (auto simp: require_def)

lemma require_True [simp]: "require True msg = Inr ()"
  by (simp add: require_def)

lemma checked_add_Inr: "checked_add a b = Inr r \<longleftrightarrow> a + b \<le> MAX_UINT256 \<and> r = a + b"
  by (auto simp: checked_add_def)

lemma checked_mul_Inr: "checked_mul a b = Inr r \<longleftrightarrow> a * b \<le> MAX_UINT256 \<and> r = a * b"
  by (auto simp: checked_mul_def)

lemma checked_sub_Inr: "checked_sub a b = Inr r \<longleftrightarrow> b \<le> a \<and> r = a - b"
  by (auto simp: checked_sub_def)

lemma last_element_Inr: "last_element xs = Inr x \<longleftrightarrow> xs \<noteq> [] \<and> x = last xs"
  by (cases xs rule: rev_cases) (auto simp: last_element_def and_then_Inr checked_sub_Inr)

subsection \<open>What the external calls change\<close>

lemma approve_Inr:
  "approve env token spender amount c = Inr c' \<longleftrightarrow>
     (\<exists>w. erc20_approve env token (self env) spender amount (world c) = Inr w
          \<and> c' = c\<lparr> world := w, calls := calls c @ [Approve token spender amount] \<rparr>)"
  by (auto simp: approve_def split: sum.splits)

lemma swap_Inr:
  "swapExactTokensForTokens env router amountIn amountOutMin path deadline c = Inr (amounts, c') \<longleftrightarrow>
     (\<exists>w. router_swap env router (self env) amountIn amountOutMin path (self env) deadline (world c)
             = Inr (amounts, w)
          \<and> c' = c\<lparr> world := w,
                     calls := calls c @ [Swap router amountIn amountOutMin path (self env) deadline] \<rparr>)"
  by (auto simp: swapExactTokensForTokens_def split: sum.splits)


text \<open>
  The fallback loop changes the world and the list of calls only, and every call it
  makes is a swap of the intermediate amount with the given minimum output.
\<close>

lemma try_routers_frame:
  "try_routers env rs ia mo p c = Inr (v, c') \<Longrightarrow>
     \<exists>w attempts. c' = c\<lparr> world := w, calls := calls c @ attempts \<rparr>
        \<and> (\<forall>x\<in>set attempts. \<exists>r d. x = Swap r ia mo p (self env) d)"
proof (induction rs arbitrary: c)
  case Nil
  then have "c' = c\<lparr> world := world c, calls := calls c @ [] \<rparr>" by simp
  then show ?case by (metis empty_iff list.set(1))
next
  case (Cons r rs)
  from Cons.prems obtain d where d: "checked_add (block_timestamp env) 300 = Inr d"
    and body: "(case swapExactTokensForTokens env r ia mo p d c of
         Inl e \<Rightarrow> try_routers env rs ia mo p (c\<lparr> calls := calls c @ [Swap r ia mo p (self env) d] \<rparr>)
       | Inr (amounts, c') \<Rightarrow> and_then (last_element amounts) (\<lambda>a. Inr (a, c'))) = Inr (v, c')"
    by (auto simp: and_then_Inr)
  show ?case
  proof (cases "swapExactTokensForTokens env r ia mo p d c")
    case (Inl e)
    with body have "try_routers env rs ia mo p
        (c\<lparr> calls := calls c @ [Swap r ia mo p (self env) d] \<rparr>) = Inr (v, c')" by simp
    from Cons.IH [OF this] obtain w attempts where
      c': "c' = c\<lparr> calls := calls c @ [Swap r ia mo p (self env) d] \<rparr>
               \<lparr> world := w, calls := calls (c\<lparr> calls := calls c @ [Swap r ia mo p (self env) d] \<rparr>) @ attempts \<rparr>"
      and all: "\<forall>x\<in>set attempts. \<exists>r d. x = Swap r ia mo p (self env) d"
      by blast
    from c' have "c' = c\<lparr> world := w, calls := calls c @ (Swap r ia mo p (self env) d # attempts) \<rparr>"
      by simp
    moreover from all have "\<forall>x\<in>set (Swap r ia mo p (self env) d # attempts).
        \<exists>r d. x = Swap r ia mo p (self env) d" by auto
    ultimately show ?thesis by blast
  next
    case (Inr res)
    obtain amounts c2 where res: "res = (amounts, c2)" by (cases res)
    with Inr body have "c2 = c'" by (auto simp: and_then_Inr)
    with Inr res obtain w where
      "c' = c\<lparr> world := w, calls := calls c @ [Swap r ia mo p (self env) d] \<rparr>"
      by (auto simp: swap_Inr)
    moreover have "\<forall>x\<in>set [Swap r ia mo p (self env) d]. \<exists>r d. x = Swap r ia mo p (self env) d"
      by simp
    ultimately show ?thesis by blast
  qed
qed

lemma first_hop_frame:
  "first_hop env asset amount path1 c = Inr (ia, c3) \<Longrightarrow>
     \<exists>w cs. c3 = c\<lparr> world := w, calls := calls c @ cs \<rparr>"
proof -
  assume "first_hop env asset amount path1 c = Inr (ia, c3)"
  then obtain w cs where "c3 = c\<lparr> world := w, calls := calls c @ cs \<rparr>"
    by (auto simp: first_hop_def Let_def and_then_Inr approve_Inr swap_Inr)
  then show ?thesis by blast
qed

text \<open>A successful run of \<open>executeSwaps\<close>, taken apart.\<close>

lemma executeSwaps_Inr:
  "executeSwaps env asset amount path1 path2 c = Inr (r, c4) \<longleftrightarrow>
     (\<exists>ia c3. first_hop env asset amount path1 c = Inr (ia, c3)
        \<and> amount * 101 \<le> MAX_UINT256
        \<and> try_routers env [router2 c3, router1 c3] ia (amount * 101 div 100) path2 c3 = Inr (r, c4)
        \<and> 0 < r
        \<and> amount * 50 \<le> MAX_UINT256
        \<and> amount + amount * 50 div 10000 \<le> MAX_UINT256
        \<and> amount + amount * 50 div 10000 \<le> r)"
  by (auto simp: executeSwaps_def Let_def and_then_Inr checked_mul_Inr checked_add_Inr)

lemma executeSwaps_frame:
  assumes "executeSwaps env asset amount path1 path2 c = Inr (r, c4)"
  shows "\<exists>w cs. c4 = c\<lparr> world := w, calls := calls c @ cs \<rparr>"
proof -
  from assms obtain ia c3 where
    h1: "first_hop env asset amount path1 c = Inr (ia, c3)"
    and h2: "try_routers env [router2 c3, router1 c3] ia (amount * 101 div 100) path2 c3 = Inr (r, c4)"
    by (auto simp: executeSwaps_Inr)
  from first_hop_frame [OF h1] obtain w cs where c3: "c3 = c\<lparr> world := w, calls := calls c @ cs \<rparr>"
    by blast
  from try_routers_frame [OF h2] obtain w' cs' where
    "c4 = c3\<lparr> world := w', calls := calls c3 @ cs' \<rparr>" by blast
  with c3 have "c4 = c\<lparr> world := w', calls := calls c @ (cs @ cs') \<rparr>" by simp
  then show ?thesis by blast
qed


lemma executeOperation_Inr:
  "executeOperation env sender asset amount premium initiator params c = Inr (ok, c') \<longleftrightarrow>
     (sender = aavePool c \<and> initiator = self env \<and> inFlashLoan c
      \<and> (\<exists>finalAmount c1 c2.
            executeSwaps env asset amount (p_path1 params) (p_path2 params) c = Inr (finalAmount, c1)
          \<and> amount + premium \<le> MAX_UINT256
          \<and> amount + premium < finalAmount
          \<and> p_minProfit params \<le> finalAmount - (amount + premium)
          \<and> approve env asset (aavePool c1) (amount + premium) c1 = Inr c2
          \<and> totalProfits c2 + (finalAmount - (amount + premium)) \<le> MAX_UINT256
          \<and> ok
          \<and> c' = c2\<lparr> totalProfits := totalProfits c2 + (finalAmount - (amount + premium)),
                      events := events c2 @
                        [FlashLoanExecuted asset amount (finalAmount - (amount + premium)) premium] \<rparr>))"
  by (auto simp: executeOperation_def and_then_Inr checked_add_Inr checked_sub_Inr)

text \<open>
  C2. When the callback \<open>executeOperation\<close> succeeds, the swaps returned a final amount
  strictly above \<open>amount + premium\<close> whose excess is at least \<open>minProfit\<close>; the last call
  made is the approval of exactly \<open>amount + premium\<close> to the lender, the asset's \<^verbatim>\<open>approve\<close>
  was run on the world the swaps left and the resulting world is the one it returned,
  \<open>totalProfits\<close> has grown by the excess, and the event \<open>FlashLoanExecuted\<close> closes the
  log. When the final
  amount does not exceed \<open>amount + premium\<close>, or exceeds it by less than \<open>minProfit\<close>, the
  callback reverts.
\<close>

theorem executeOperation_settlement:
  "(executeOperation env sender asset amount premium initiator params c = Inr (ok, c') \<longrightarrow>
      (\<exists>finalAmount c1.
          executeSwaps env asset amount (p_path1 params) (p_path2 params) c = Inr (finalAmount, c1)
        \<and> amount + premium < finalAmount
        \<and> p_minProfit params \<le> finalAmount - (amount + premium)
        \<and> calls c' = calls c1 @ [Approve asset (aavePool c) (amount + premium)]
        \<and> erc20_approve env asset (self env) (aavePool c) (amount + premium) (world c1)
             = Inr (world c')
        \<and> totalProfits c' = totalProfits c + (finalAmount - (amount + premium))
        \<and> events c' = events c @
             [FlashLoanExecuted asset amount (finalAmount - (amount + premium)) premium]
        \<and> ok))
   \<and> (executeSwaps env asset amount (p_path1 params) (p_path2 params) c = Inr (finalAmount, c1)
        \<and> (finalAmount \<le> amount + premium \<or> finalAmount - (amount + premium) < p_minProfit params)
        \<longrightarrow> isl (executeOperation env sender asset amount premium initiator params c))"
proof (intro conjI impI)
  assume run: "executeOperation env sender asset amount premium initiator params c = Inr (ok, c')"
  then obtain finalAmount c1 c2 where
    sw: "executeSwaps env asset amount (p_path1 params) (p_path2 params) c = Inr (finalAmount, c1)"
    and gt: "amount + premium < finalAmount"
    and mp: "p_minProfit params \<le> finalAmount - (amount + premium)"
    and ap: "approve env asset (aavePool c1) (amount + premium) c1 = Inr c2"
    and ok: ok
    and c': "c' = c2\<lparr> totalProfits := totalProfits c2 + (finalAmount - (amount + premium)),
                      events := events c2 @
                        [FlashLoanExecuted asset amount (finalAmount - (amount + premium)) premium] \<rparr>"
    by (auto simp: executeOperation_Inr)
  from executeSwaps_frame [OF sw] obtain w cs where
    c1: "c1 = c\<lparr> world := w, calls := calls c @ cs \<rparr>" by blast
  from ap obtain w2 where
    tok: "erc20_approve env asset (self env) (aavePool c1) (amount + premium) (world c1) = Inr w2"
    and c2: "c2 = c1\<lparr> world := w2, calls := calls c1 @ [Approve asset (aavePool c1) (amount + premium)] \<rparr>"
    by (auto simp: approve_Inr)
  from c1 c2 c' tok have "calls c' = calls c1 @ [Approve asset (aavePool c) (amount + premium)]"
    and "erc20_approve env asset (self env) (aavePool c) (amount + premium) (world c1)
           = Inr (world c')"
    and "totalProfits c' = totalProfits c + (finalAmount - (amount + premium))"
    and "events c' = events c @
           [FlashLoanExecuted asset amount (finalAmount - (amount + premium)) premium]"
    by simp_all
  with sw gt mp ok
  show "\<exists>finalAmount c1.
          executeSwaps env asset amount (p_path1 params) (p_path2 params) c = Inr (finalAmount, c1)
        \<and> amount + premium < finalAmount
        \<and> p_minProfit params \<le> finalAmount - (amount + premium)
        \<and> calls c' = calls c1 @ [Approve asset (aavePool c) (amount + premium)]
        \<and> erc20_approve env asset (self env) (aavePool c) (amount + premium) (world c1)
             = Inr (world c')
        \<and> totalProfits c' = totalProfits c + (finalAmount - (amount + premium))
        \<and> events c' = events c @
             [FlashLoanExecuted asset amount (finalAmount - (amount + premium)) premium]
        \<and> ok"
    by blast
next
  assume h: "executeSwaps env asset amount (p_path1 params) (p_path2 params) c = Inr (finalAmount, c1)
        \<and> (finalAmount \<le> amount + premium \<or> finalAmount - (amount + premium) < p_minProfit params)"
  show "isl (executeOperation env sender asset amount premium initiator params c)"
  proof (cases "executeOperation env sender asset amount premium initiator params c")
    case (Inl e)
    then show ?thesis by simp
  next
    case (Inr res)
    obtain ok c' where "res = (ok, c')" by (cases res)
    with Inr h show ?thesis by (auto simp: executeOperation_Inr)
  qed
qed



lemma zero_received_reverts:
  assumes "first_hop env asset amount path1 c = Inr (ia, c3)"
    and "amount * 101 \<le> MAX_UINT256"
    and "try_routers env [router2 c3, router1 c3] ia (amount * 101 div 100) path2 c3 = Inr (0, c4)"
  shows "executeSwaps env asset amount path1 path2 c = Inl (Revert ''All swap attempts failed'')"
  using assms by (simp add: executeSwaps_def checked_mul_def require_def)





lemma below_floor_reverts:
  assumes "first_hop env asset amount path1 c = Inr (ia, c3)"
    and "try_routers env [router2 c3, router1 c3] ia (amount * 101 div 100) path2 c3 = Inr (r, c4)"
    and "r < amount + amount * 50 div 10000"
  shows "isl (executeSwaps env asset amount path1 path2 c)"
proof (cases "executeSwaps env asset amount path1 path2 c")
  case (Inl e)
  then show ?thesis by simp
next
  case (Inr res)
  obtain r' c' where "res = (r', c')" by (cases res)
  with Inr assms show ?thesis by (auto simp: executeSwaps_Inr)
qed

lemma executeSwaps_fails_executeOperation_fails:
  assumes "isl (executeSwaps env asset amount (p_path1 params) (p_path2 params) c)"
  shows "isl (executeOperation env sender asset amount premium initiator params c)"
proof (cases "executeOperation env sender asset amount premium initiator params c")
  case (Inl e)
  then show ?thesis by simp
next
  case (Inr res)
  obtain ok c' where "res = (ok, c')" by (cases res)
  with Inr assms show ?thesis by (auto simp: executeOperation_Inr)
qed



lemma flashArbitrage_Inr:
  "flashArbitrage env sender asset amount path1 path2 minProfit c = Inr c' \<longleftrightarrow>
     (owner c = sender \<and> \<not> entered c \<and> \<not> paused c \<and> aavePool c \<noteq> 0
      \<and> router1 c \<noteq> 0 \<and> router2 c \<noteq> 0 \<and> 2 \<le> length path1 \<and> 2 \<le> length path2
      \<and> path1 ! 0 = asset \<and> last path2 = asset \<and> amount * 5 \<le> MAX_UINT256
      \<and> (\<exists>ok c2. executeOperation env (aavePool c) asset amount (amount * 5 div 10000) (self env)
                     \<lparr> p_path1 = path1, p_path2 = path2, p_minProfit = minProfit \<rparr>
                     (at_callback env asset amount c) = Inr (ok, c2)
                  \<and> c' = c2\<lparr> inFlashLoan := False, entered := False \<rparr>))"
  by (auto simp: flashArbitrage_def flashLoanSimple_def at_callback_def Let_def and_then_Inr
      checked_mul_Inr first_element_def last_element_Inr split: sum.splits)

lemma callback_fails_attempt_fails:
  assumes "isl (executeOperation env (aavePool c) asset amount (amount * 5 div 10000) (self env)
                  \<lparr> p_path1 = path1, p_path2 = path2, p_minProfit = minProfit \<rparr>
                  (at_callback env asset amount c))"
  shows "isl (flashArbitrage env sender asset amount path1 path2 minProfit c)"
proof (cases "flashArbitrage env sender asset amount path1 path2 minProfit c")
  case (Inl e)
  then show ?thesis by simp
next
  case (Inr c')
  with assms show ?thesis by (auto simp: flashArbitrage_Inr)
qed

lemma first_hop_fails_executeSwaps_fails:
  "isl (first_hop env asset amount path1 c) \<Longrightarrow> isl (executeSwaps env asset amount path1 path2 c)"
  by (cases "first_hop env asset amount path1 c") (simp_all add: executeSwaps_def)

lemma zero_received_fails:
  assumes "first_hop env asset amount path1 c = Inr (ia, c3)"
    and "try_routers env [router2 c3, router1 c3] ia (amount * 101 div 100) path2 c3 = Inr (0, c4)"
  shows "isl (executeSwaps env asset amount path1 path2 c)"
  using assms by (simp add: executeSwaps_def checked_mul_def require_def)

lemma unprofitable_fails:
  assumes "executeSwaps env asset amount (p_path1 params) (p_path2 params) c = Inr (finalAmount, c1)"
    and "finalAmount \<le> amount + premium \<or> finalAmount - (amount + premium) < p_minProfit params"
  shows "isl (executeOperation env sender asset amount premium initiator params c)"
proof (cases "executeOperation env sender asset amount premium initiator params c")
  case (Inl e)
  then show ?thesis by simp
next
  case (Inr res)
  obtain ok c' where "res = (ok, c')" by (cases res)
  with Inr assms show ?thesis by (auto simp: executeOperation_Inr)
qed

lemma spoofed_callback_fails:
  assumes "sender \<noteq> aavePool c \<or> initiator \<noteq> self env \<or> \<not> inFlashLoan c"
  shows "isl (call_executeOperation env sender asset amount premium initiator params c)"
proof (cases "executeOperation env sender asset amount premium initiator params c")
  case (Inl e)
  then show ?thesis by (simp add: call_executeOperation_def)
next
  case (Inr res)
  obtain ok c' where "res = (ok, c')" by (cases res)
  with Inr assms show ?thesis by (auto simp: executeOperation_Inr)
qed

lemma transact_failed: "isl (f c) \<Longrightarrow> fst (transact f c) = c \<and> snd (transact f c) \<noteq> None"
  by (cases "f c") (simp_all add: transact_def)

text \<open>
  C1, as the code has it. When, after the loan is granted, the first swap fails, or the
  fallback loop ends with nothing received (every router reverted, or the accepted one
  returned zero), or the amount received is below the floor
  \<open>amount + amount * 50 div 10000\<close>, or the final amount does not exceed
  \<open>amount + premium\<close> or exceeds it by less than \<open>minProfit\<close>, the transaction of
  \<open>flashArbitrage\<close> fails and its ledger (the profit counter, the world with every token
  balance, the log) is the one before the attempt; so it is for a callback called by
  anyone but the lender, with a foreign initiator, or outside a loan. Nothing is said of
  a swap of the second hop that reverts while a later router returns, nor of a first
  swap that returns zero.
\<close>

theorem failed_attempt_leaves_ledger_unchanged:
  "((isl (first_hop env asset amount path1 (at_callback env asset amount c))
     \<or> (\<exists>ia c3 c4. first_hop env asset amount path1 (at_callback env asset amount c) = Inr (ia, c3)
           \<and> try_routers env [router2 c3, router1 c3] ia (amount * 101 div 100) path2 c3 = Inr (0, c4))
     \<or> (\<exists>ia c3 r c4. first_hop env asset amount path1 (at_callback env asset amount c) = Inr (ia, c3)
           \<and> try_routers env [router2 c3, router1 c3] ia (amount * 101 div 100) path2 c3 = Inr (r, c4)
           \<and> r < amount + amount * 50 div 10000)
     \<or> (\<exists>finalAmount c1.
           executeSwaps env asset amount path1 path2 (at_callback env asset amount c)
             = Inr (finalAmount, c1)
           \<and> (finalAmount \<le> amount + amount * 5 div 10000
              \<or> finalAmount - (amount + amount * 5 div 10000) < minProfit)))
    \<longrightarrow> fst (transact (flashArbitrage env sender asset amount path1 path2 minProfit) c) = c
      \<and> snd (transact (flashArbitrage env sender asset amount path1 path2 minProfit) c) \<noteq> None)
   \<and> (caller \<noteq> aavePool c \<or> initiator \<noteq> self env \<or> \<not> inFlashLoan c
    \<longrightarrow> fst (transact (call_executeOperation env caller asset amount premium initiator params) c) = c
      \<and> snd (transact (call_executeOperation env caller asset amount premium initiator params) c)
          \<noteq> None)"
proof (intro conjI impI)
  let ?cb = "at_callback env asset amount c"
  let ?params = "\<lparr> p_path1 = path1, p_path2 = path2, p_minProfit = minProfit \<rparr>"
  let ?attempt = "flashArbitrage env sender asset amount path1 path2 minProfit"
  assume kinds: "isl (first_hop env asset amount path1 ?cb)
     \<or> (\<exists>ia c3 c4. first_hop env asset amount path1 ?cb = Inr (ia, c3)
           \<and> try_routers env [router2 c3, router1 c3] ia (amount * 101 div 100) path2 c3 = Inr (0, c4))
     \<or> (\<exists>ia c3 r c4. first_hop env asset amount path1 ?cb = Inr (ia, c3)
           \<and> try_routers env [router2 c3, router1 c3] ia (amount * 101 div 100) path2 c3 = Inr (r, c4)
           \<and> r < amount + amount * 50 div 10000)
     \<or> (\<exists>finalAmount c1.
           executeSwaps env asset amount path1 path2 ?cb = Inr (finalAmount, c1)
           \<and> (finalAmount \<le> amount + amount * 5 div 10000
              \<or> finalAmount - (amount + amount * 5 div 10000) < minProfit))"
  from kinds consider
      (hop1) "isl (first_hop env asset amount path1 ?cb)"
    | (zero) ia c3 c4 where "first_hop env asset amount path1 ?cb = Inr (ia, c3)"
        "try_routers env [router2 c3, router1 c3] ia (amount * 101 div 100) path2 c3 = Inr (0, c4)"
    | (low) ia c3 r c4 where "first_hop env asset amount path1 ?cb = Inr (ia, c3)"
        "try_routers env [router2 c3, router1 c3] ia (amount * 101 div 100) path2 c3 = Inr (r, c4)"
        "r < amount + amount * 50 div 10000"
    | (unprofitable) finalAmount c1 where
        "executeSwaps env asset amount path1 path2 ?cb = Inr (finalAmount, c1)"
        "finalAmount \<le> amount + amount * 5 div 10000
           \<or> finalAmount - (amount + amount * 5 div 10000) < minProfit"
    by blast
  then have "isl (executeOperation env (aavePool c) asset amount (amount * 5 div 10000) (self env)
               ?params ?cb)"
  proof cases
    case hop1
    then have "isl (executeSwaps env asset amount (p_path1 ?params) (p_path2 ?params) ?cb)"
      by (simp add: first_hop_fails_executeSwaps_fails)
    then show ?thesis by (rule executeSwaps_fails_executeOperation_fails)
  next
    case zero
    then have "isl (executeSwaps env asset amount (p_path1 ?params) (p_path2 ?params) ?cb)"
      using zero_received_fails by simp
    then show ?thesis by (rule executeSwaps_fails_executeOperation_fails)
  next
    case low
    then have "isl (executeSwaps env asset amount (p_path1 ?params) (p_path2 ?params) ?cb)"
      using below_floor_reverts by simp
    then show ?thesis by (rule executeSwaps_fails_executeOperation_fails)
  next
    case unprofitable
    then show ?thesis
      using unprofitable_fails [of env asset amount ?params ?cb finalAmount c1 "amount * 5 div 10000"]
      by simp
  qed
  then have failed: "isl (?attempt c)" by (rule callback_fails_attempt_fails)
  from transact_failed [of ?attempt c, OF failed]
  show "fst (transact ?attempt c) = c" and "snd (transact ?attempt c) \<noteq> None" by simp_all
next
  assume sp: "caller \<noteq> aavePool c \<or> initiator \<noteq> self env \<or> \<not> inFlashLoan c"
  from transact_failed [of "call_executeOperation env caller asset amount premium initiator params" c,
      OF spoofed_callback_fails [OF sp]]
  show "fst (transact (call_executeOperation env caller asset amount premium initiator params) c) = c"
    and "snd (transact (call_executeOperation env caller asset amount premium initiator params) c)
          \<noteq> None"
    by simp_all
qed

lemma minProfit_met_exactly_succeeds:
  assumes "sender = aavePool c" and "initiator = self env" and "inFlashLoan c"
    and "executeSwaps env asset amount (p_path1 params) (p_path2 params) c = Inr (finalAmount, c1)"
    and "amount + premium < finalAmount"
    and "amount + premium \<le> MAX_UINT256"
    and "finalAmount - (amount + premium) = p_minProfit params"
    and "approve env asset (aavePool c1) (amount + premium) c1 = Inr c2"
    and "totalProfits c2 + p_minProfit params \<le> MAX_UINT256"
  shows "executeOperation env sender asset amount premium initiator params c =
           Inr (True, c2\<lparr> totalProfits := totalProfits c2 + p_minProfit params,
                           events := events c2 @
                             [FlashLoanExecuted asset amount (p_minProfit params) premium] \<rparr>)"
  using assms by (simp add: executeOperation_def checked_add_def checked_sub_def)

lemma floor_met_exactly_succeeds:
  assumes "first_hop env asset amount path1 c = Inr (ia, c3)"
    and "amount * 101 \<le> MAX_UINT256"
    and "try_routers env [router2 c3, router1 c3] ia (amount * 101 div 100) path2 c3 = Inr (r, c4)"
    and "0 < r" and "r = amount + amount * 50 div 10000"
  shows "executeSwaps env asset amount path1 path2 c = Inr (r, c4)"
proof -
  from assms(2) have "amount * 50 \<le> MAX_UINT256" by simp
  moreover from assms(2) have "amount + amount * 50 div 10000 \<le> MAX_UINT256" by simp
  ultimately show ?thesis using assms
    by (simp add: executeSwaps_def checked_mul_def checked_add_def)
qed

text \<open>
  C5, as the code has it. Two comparisons are strict: a final amount equal to
  \<open>amount + premium\<close> makes the callback revert, and an amount received of 0 makes
  \<open>executeSwaps\<close> revert. Two are not: a profit equal to \<open>minProfit\<close> passes, and an amount
  received equal to the floor \<open>amount + amount * 50 div 10000\<close> passes.
\<close>

theorem comparison_strictness:
  "(executeSwaps env asset amount (p_path1 params) (p_path2 params) c = Inr (finalAmount, c1)
      \<and> finalAmount = amount + premium
      \<longrightarrow> isl (executeOperation env sender asset amount premium initiator params c))
   \<and> (first_hop env asset amount path1 c = Inr (ia, c3)
      \<and> amount * 101 \<le> MAX_UINT256
      \<and> try_routers env [router2 c3, router1 c3] ia (amount * 101 div 100) path2 c3 = Inr (0, c4)
      \<longrightarrow> executeSwaps env asset amount path1 path2 c = Inl (Revert ''All swap attempts failed''))
   \<and> (sender = aavePool c \<and> initiator = self env \<and> inFlashLoan c
      \<and> executeSwaps env asset amount (p_path1 params) (p_path2 params) c = Inr (finalAmount, c1)
      \<and> amount + premium < finalAmount
      \<and> amount + premium \<le> MAX_UINT256
      \<and> finalAmount - (amount + premium) = p_minProfit params
      \<and> approve env asset (aavePool c1) (amount + premium) c1 = Inr c2
      \<and> totalProfits c2 + p_minProfit params \<le> MAX_UINT256
      \<longrightarrow> executeOperation env sender asset amount premium initiator params c =
           Inr (True, c2\<lparr> totalProfits := totalProfits c2 + p_minProfit params,
                           events := events c2 @
                             [FlashLoanExecuted asset amount (p_minProfit params) premium] \<rparr>))
   \<and> (first_hop env asset amount path1 c = Inr (ia, c3)
      \<and> amount * 101 \<le> MAX_UINT256
      \<and> try_routers env [router2 c3, router1 c3] ia (amount * 101 div 100) path2 c3 = Inr (r, c5)
      \<and> 0 < r \<and> r = amount + amount * 50 div 10000
      \<longrightarrow> executeSwaps env asset amount path1 path2 c = Inr (r, c5))"
proof (intro conjI impI)
  assume "executeSwaps env asset amount (p_path1 params) (p_path2 params) c = Inr (finalAmount, c1)
      \<and> finalAmount = amount + premium"
  then show "isl (executeOperation env sender asset amount premium initiator params c)"
    using unprofitable_fails [of env asset amount params c finalAmount c1 premium] by simp
next
  assume "first_hop env asset amount path1 c = Inr (ia, c3)
      \<and> amount * 101 \<le> MAX_UINT256
      \<and> try_routers env [router2 c3, router1 c3] ia (amount * 101 div 100) path2 c3 = Inr (0, c4)"
  then show "executeSwaps env asset amount path1 path2 c = Inl (Revert ''All swap attempts failed'')"
    using zero_received_reverts by blast
next
  assume "sender = aavePool c \<and> initiator = self env \<and> inFlashLoan c
      \<and> executeSwaps env asset amount (p_path1 params) (p_path2 params) c = Inr (finalAmount, c1)
      \<and> amount + premium < finalAmount
      \<and> amount + premium \<le> MAX_UINT256
      \<and> finalAmount - (amount + premium) = p_minProfit params
      \<and> approve env asset (aavePool c1) (amount + premium) c1 = Inr c2
      \<and> totalProfits c2 + p_minProfit params \<le> MAX_UINT256"
  then show "executeOperation env sender asset amount premium initiator params c =
           Inr (True, c2\<lparr> totalProfits := totalProfits c2 + p_minProfit params,
                           events := events c2 @
                             [FlashLoanExecuted asset amount (p_minProfit params) premium] \<rparr>)"
    using minProfit_met_exactly_succeeds by blast
next
  assume "first_hop env asset amount path1 c = Inr (ia, c3)
      \<and> amount * 101 \<le> MAX_UINT256
      \<and> try_routers env [router2 c3, router1 c3] ia (amount * 101 div 100) path2 c3 = Inr (r, c5)
      \<and> 0 < r \<and> r = amount + amount * 50 div 10000"
  then show "executeSwaps env asset amount path1 path2 c = Inr (r, c5)"
    by (elim conjE) (rule floor_met_exactly_succeeds; assumption)
qed


subsection \<open>Runs on the test ledgers\<close>

lemma small_fits: "n \<le> 10 ^ 30 \<Longrightarrow> n \<le> MAX_UINT256"
  by (simp add: MAX_UINT256_def)

lemma mock_env_fields [simp]:
  "self mock_env = 100" "block_timestamp mock_env = 1700000000"
  "erc20_approve mock_env token caller spender amount w = Inr w"
  by (simp_all add: mock_env_def)

lemma fixed_router_env_fields [simp]:
  "self (fixed_router_env out) = 100" "block_timestamp (fixed_router_env out) = 1700000000"
  "erc20_approve (fixed_router_env out) token caller spender amount w = Inr w"
  "router_swap (fixed_router_env out) 2 caller amountIn amountOutMin path to deadline w
     = Inr ([amountIn, out], w)"
  "router \<noteq> 2 \<Longrightarrow>
     router_swap (fixed_router_env out) router caller amountIn amountOutMin path to deadline w
       = router_swap mock_env router caller amountIn amountOutMin path to deadline w"
  by (simp_all add: fixed_router_env_def mock_env_def)

lemma mock_router_pair:
  assumes "amountIn \<le> 10 ^ 20" and "amountOutMin \<le> amountIn * 1015 div 1000"
  shows "router_swap mock_env router caller amountIn amountOutMin [a, b] to 1700000300 w =
           Inr ([amountIn, amountIn * 1015 div 1000], w)"
proof -
  from assms(1) have "amountIn * 1015 \<le> MAX_UINT256" by (intro small_fits) simp
  with assms(2) show ?thesis
    by (simp add: mock_env_def MockUniswapRouter_swap_def checked_mul_def checked_sub_def
        require_def Let_def)
qed

lemma deadline_mock [simp]: "checked_add 1700000000 300 = Inr 1700000300"
  by (simp add: checked_add_def MAX_UINT256_def)

lemma mock_first_hop:
  assumes "amount \<le> 10 ^ 20"
  shows "first_hop mock_env asset amount [a, b] c =
     Inr (amount * 1015 div 1000,
          c\<lparr> calls := calls c @ [Approve asset (router1 c) amount,
                                   Swap (router1 c) amount 0 [a, b] 100 1700000300,
                                   Approve b (router2 c) (amount * 1015 div 1000)] \<rparr>)"
  using assms
  by (simp add: first_hop_def approve_def swapExactTokensForTokens_def mock_router_pair
      last_element_def checked_sub_def)

lemma fixed_first_hop:
  assumes "amount \<le> 10 ^ 20" and "router1 c \<noteq> 2"
  shows "first_hop (fixed_router_env out) asset amount [a, b] c =
     Inr (amount * 1015 div 1000,
          c\<lparr> calls := calls c @ [Approve asset (router1 c) amount,
                                   Swap (router1 c) amount 0 [a, b] 100 1700000300,
                                   Approve b (router2 c) (amount * 1015 div 1000)] \<rparr>)"
  using assms
  by (simp add: first_hop_def approve_def swapExactTokensForTokens_def mock_router_pair
      last_element_def checked_sub_def)

lemma mock_try_routers:
  assumes "ia \<le> 10 ^ 20" and "mo \<le> ia * 1015 div 1000"
  shows "try_routers mock_env (r # rs) ia mo [a, b] c =
     Inr (ia * 1015 div 1000, c\<lparr> calls := calls c @ [Swap r ia mo [a, b] 100 1700000300] \<rparr>)"
  using assms
  by (simp add: swapExactTokensForTokens_def mock_router_pair last_element_def checked_sub_def)

lemma fixed_try_routers:
  "try_routers (fixed_router_env out) (2 # rs) ia mo p c =
     Inr (out, c\<lparr> calls := calls c @ [Swap 2 ia mo p 100 1700000300] \<rparr>)"
  by (simp add: swapExactTokensForTokens_def last_element_def checked_sub_def)



lemma mock_executeSwaps:
  "executeSwaps mock_env 7 10000 [7, 8] [8, 7] (at_callback mock_env 7 10000 mock_chain) =
     Inr (10302, (at_callback mock_env 7 10000 mock_chain)
        \<lparr> calls := [Approve 7 1 10000, Swap 1 10000 0 [7, 8] 100 1700000300,
                    Approve 8 2 10150, Swap 2 10150 10100 [8, 7] 100 1700000300] \<rparr>)"
  by (simp add: executeSwaps_def mock_first_hop mock_try_routers checked_mul_def checked_add_def
      MAX_UINT256_def at_callback_def mock_chain_def del: try_routers.simps)

lemma mock_callback_run:
  "executeOperation mock_env 9 7 10000 5 100
      \<lparr> p_path1 = [7, 8], p_path2 = [8, 7], p_minProfit = 297 \<rparr>
      (at_callback mock_env 7 10000 mock_chain) =
   Inr (True, (at_callback mock_env 7 10000 mock_chain)
        \<lparr> totalProfits := 297,
          events := [FlashLoanCalled 100 7 10000, FlashLoanExecuted 7 10000 297 5],
          calls := [Approve 7 1 10000, Swap 1 10000 0 [7, 8] 100 1700000300,
                    Approve 8 2 10150, Swap 2 10150 10100 [8, 7] 100 1700000300,
                    Approve 7 9 10005] \<rparr>)"
  by (simp add: executeOperation_def mock_executeSwaps approve_def checked_add_def checked_sub_def
      MAX_UINT256_def) (simp add: at_callback_def mock_chain_def)

theorem executeOperation_settlement_witness:
  "executeOperation mock_env 9 7 10000 5 100
      \<lparr> p_path1 = [7, 8], p_path2 = [8, 7], p_minProfit = 297 \<rparr>
      (at_callback mock_env 7 10000 mock_chain) =
   Inr (True, (at_callback mock_env 7 10000 mock_chain)
        \<lparr> totalProfits := 297,
          events := [FlashLoanCalled 100 7 10000, FlashLoanExecuted 7 10000 297 5],
          calls := [Approve 7 1 10000, Swap 1 10000 0 [7, 8] 100 1700000300,
                    Approve 8 2 10150, Swap 2 10150 10100 [8, 7] 100 1700000300,
                    Approve 7 9 10005] \<rparr>)
   \<and> (10000::nat) + 5 < 10302 \<and> (297::nat) \<le> 10302 - (10000 + 5)
   \<and> isl (executeOperation mock_env 9 7 10000 302 100
            \<lparr> p_path1 = [7, 8], p_path2 = [8, 7], p_minProfit = 297 \<rparr>
            (at_callback mock_env 7 10000 mock_chain))"
proof -
  let ?P = "\<lparr> p_path1 = [7, 8], p_path2 = [8, 7], p_minProfit = 297 \<rparr>"
  let ?cb = "at_callback mock_env 7 10000 mock_chain"
  let ?c1 = "?cb\<lparr> calls := [Approve 7 1 10000, Swap 1 10000 0 [7, 8] 100 1700000300,
                    Approve 8 2 10150, Swap 2 10150 10100 [8, 7] 100 1700000300] \<rparr>"
  have sw: "executeSwaps mock_env 7 10000 (p_path1 ?P) (p_path2 ?P) ?cb = Inr (10302, ?c1)"
    using mock_executeSwaps by simp
  from executeOperation_settlement
    [where env = mock_env and sender = 9 and asset = 7 and amount = 10000 and premium = 5
      and initiator = 100 and params = ?P and c = ?cb and ok = True]
    mock_callback_run sw
  have first: "(10000::nat) + 5 < 10302 \<and> (297::nat) \<le> 10302 - (10000 + 5)"
    by auto
  from executeOperation_settlement
    [where env = mock_env and sender = 9 and asset = 7 and amount = 10000 and premium = 302
      and initiator = 100 and params = ?P and c = ?cb and finalAmount = 10302 and ?c1.0 = ?c1]
    sw
  have second: "isl (executeOperation mock_env 9 7 10000 302 100 ?P ?cb)"
    by simp
  from mock_callback_run first second show ?thesis by blast
qed


lemma mock_flashArbitrage_run:
  "flashArbitrage mock_env 1 7 10000 [7, 8] [8, 7] 297 mock_chain =
     Inr (mock_chain
        \<lparr> totalProfits := 297,
          events := [FlashLoanCalled 100 7 10000, FlashLoanExecuted 7 10000 297 5],
          calls := [Approve 7 1 10000, Swap 1 10000 0 [7, 8] 100 1700000300,
                    Approve 8 2 10150, Swap 2 10150 10100 [8, 7] 100 1700000300,
                    Approve 7 9 10005] \<rparr>)"
proof -
  have "aavePool mock_chain = 9" "owner mock_chain = 1" "\<not> entered mock_chain"
    "\<not> paused mock_chain" "router1 mock_chain = 1" "router2 mock_chain = 2"
    by (simp_all add: mock_chain_def)
  moreover have "(10000::nat) * 5 div 10000 = 5" by simp
  moreover have "(10000::nat) * 5 \<le> MAX_UINT256" by (simp add: MAX_UINT256_def)
  ultimately show ?thesis
    using mock_callback_run
    by (simp add: flashArbitrage_Inr) (auto simp: at_callback_def mock_chain_def)
qed

text \<open>
  C5 does not hold as stated: on the mock ledger a loan of 10000 returns 10302 against
  10005 owed, a profit of 297, and the attempt with \<open>minProfit = 297\<close> succeeds.
\<close>

theorem minProfit_comparison_not_strict:
  "flashArbitrage mock_env 1 7 10000 [7, 8] [8, 7] 297 mock_chain =
     Inr (mock_chain
        \<lparr> totalProfits := 297,
          events := [FlashLoanCalled 100 7 10000, FlashLoanExecuted 7 10000 297 5],
          calls := [Approve 7 1 10000, Swap 1 10000 0 [7, 8] 100 1700000300,
                    Approve 8 2 10150, Swap 2 10150 10100 [8, 7] 100 1700000300,
                    Approve 7 9 10005] \<rparr>)
   \<and> (10302::nat) - (10000 + 5) = 297"
  using mock_flashArbitrage_run by simp






lemma fixed_zero_first_hop:
  "first_hop (fixed_router_env 0) 7 10000 [7, 8] mock_chain =
     Inr (10150, mock_chain\<lparr> calls := [Approve 7 1 10000, Swap 1 10000 0 [7, 8] 100 1700000300,
                                           Approve 8 2 10150] \<rparr>)"
  by (simp add: fixed_first_hop mock_chain_def)



lemma reverting_router_env_fields [simp]:
  "self reverting_router_env = 100" "block_timestamp reverting_router_env = 1700000000"
  "erc20_approve reverting_router_env token caller spender amount w = Inr w"
  "router_swap reverting_router_env 2 caller amountIn amountOutMin path to deadline w
     = Inl (Revert ''INSUFFICIENT_LIQUIDITY'')"
  "router \<noteq> 2 \<Longrightarrow>
     router_swap reverting_router_env router caller amountIn amountOutMin path to deadline w
       = router_swap mock_env router caller amountIn amountOutMin path to deadline w"
  by (simp_all add: reverting_router_env_def mock_env_def)

lemma fixed_outputs_env_fields [simp]:
  "self (fixed_outputs_env out1 out2) = 100"
  "block_timestamp (fixed_outputs_env out1 out2) = 1700000000"
  "erc20_approve (fixed_outputs_env out1 out2) token caller spender amount w = Inr w"
  "router_swap (fixed_outputs_env out1 out2) 1 caller amountIn amountOutMin path to deadline w
     = Inr ([amountIn, out1], w)"
  "router_swap (fixed_outputs_env out1 out2) (Suc 0) caller amountIn amountOutMin path to deadline w
     = Inr ([amountIn, out1], w)"
  "router_swap (fixed_outputs_env out1 out2) 2 caller amountIn amountOutMin path to deadline w
     = Inr ([amountIn, out2], w)"
  by (simp_all add: fixed_outputs_env_def mock_env_def)

lemma reverting_executeSwaps:
  "executeSwaps reverting_router_env 7 10000 [7, 8] [8, 7]
     (at_callback reverting_router_env 7 10000 mock_chain) =
     Inr (10302, (at_callback reverting_router_env 7 10000 mock_chain)
        \<lparr> calls := [Approve 7 1 10000, Swap 1 10000 0 [7, 8] 100 1700000300,
                    Approve 8 2 10150, Swap 2 10150 10100 [8, 7] 100 1700000300,
                    Swap 1 10150 10100 [8, 7] 100 1700000300] \<rparr>)"
  by (simp add: executeSwaps_def first_hop_def approve_def swapExactTokensForTokens_def
      mock_router_pair last_element_def checked_sub_def checked_mul_def checked_add_def
      MAX_UINT256_def at_callback_def mock_chain_def)

lemma reverting_callback_run:
  "executeOperation reverting_router_env 9 7 10000 5 100
      \<lparr> p_path1 = [7, 8], p_path2 = [8, 7], p_minProfit = 0 \<rparr>
      (at_callback reverting_router_env 7 10000 mock_chain) =
   Inr (True, (at_callback reverting_router_env 7 10000 mock_chain)
        \<lparr> totalProfits := 297,
          events := [FlashLoanCalled 100 7 10000, FlashLoanExecuted 7 10000 297 5],
          calls := [Approve 7 1 10000, Swap 1 10000 0 [7, 8] 100 1700000300,
                    Approve 8 2 10150, Swap 2 10150 10100 [8, 7] 100 1700000300,
                    Swap 1 10150 10100 [8, 7] 100 1700000300, Approve 7 9 10005] \<rparr>)"
  by (simp add: executeOperation_def reverting_executeSwaps approve_def checked_add_def
      checked_sub_def MAX_UINT256_def) (simp add: at_callback_def mock_chain_def)

lemma reverting_flashArbitrage_run:
  "flashArbitrage reverting_router_env 1 7 10000 [7, 8] [8, 7] 0 mock_chain =
     Inr (mock_chain
        \<lparr> totalProfits := 297,
          events := [FlashLoanCalled 100 7 10000, FlashLoanExecuted 7 10000 297 5],
          calls := [Approve 7 1 10000, Swap 1 10000 0 [7, 8] 100 1700000300,
                    Approve 8 2 10150, Swap 2 10150 10100 [8, 7] 100 1700000300,
                    Swap 1 10150 10100 [8, 7] 100 1700000300, Approve 7 9 10005] \<rparr>)"
proof -
  have "aavePool mock_chain = 9" "owner mock_chain = 1" "\<not> entered mock_chain"
    "\<not> paused mock_chain" "router1 mock_chain = 1" "router2 mock_chain = 2"
    by (simp_all add: mock_chain_def)
  moreover have "(10000::nat) * 5 div 10000 = 5" by simp
  moreover have "(10000::nat) * 5 \<le> MAX_UINT256" by (simp add: MAX_UINT256_def)
  ultimately show ?thesis
    using reverting_callback_run
    by (simp add: flashArbitrage_Inr) (auto simp: at_callback_def mock_chain_def)
qed

lemma zero_hop1_executeSwaps:
  "executeSwaps (fixed_outputs_env 0 10302) 7 10000 [7, 8] [8, 7]
     (at_callback (fixed_outputs_env 0 10302) 7 10000 mock_chain) =
     Inr (10302, (at_callback (fixed_outputs_env 0 10302) 7 10000 mock_chain)
        \<lparr> calls := [Approve 7 1 10000, Swap 1 10000 0 [7, 8] 100 1700000300,
                    Approve 8 2 0, Swap 2 0 10100 [8, 7] 100 1700000300] \<rparr>)"
  by (simp add: executeSwaps_def first_hop_def approve_def swapExactTokensForTokens_def
      last_element_def checked_sub_def checked_mul_def checked_add_def
      MAX_UINT256_def at_callback_def mock_chain_def)

lemma zero_hop1_callback_run:
  "executeOperation (fixed_outputs_env 0 10302) 9 7 10000 5 100
      \<lparr> p_path1 = [7, 8], p_path2 = [8, 7], p_minProfit = 0 \<rparr>
      (at_callback (fixed_outputs_env 0 10302) 7 10000 mock_chain) =
   Inr (True, (at_callback (fixed_outputs_env 0 10302) 7 10000 mock_chain)
        \<lparr> totalProfits := 297,
          events := [FlashLoanCalled 100 7 10000, FlashLoanExecuted 7 10000 297 5],
          calls := [Approve 7 1 10000, Swap 1 10000 0 [7, 8] 100 1700000300,
                    Approve 8 2 0, Swap 2 0 10100 [8, 7] 100 1700000300,
                    Approve 7 9 10005] \<rparr>)"
  by (simp add: executeOperation_def zero_hop1_executeSwaps approve_def checked_add_def
      checked_sub_def MAX_UINT256_def) (simp add: at_callback_def mock_chain_def)

lemma zero_hop1_flashArbitrage_run:
  "flashArbitrage (fixed_outputs_env 0 10302) 1 7 10000 [7, 8] [8, 7] 0 mock_chain =
     Inr (mock_chain
        \<lparr> totalProfits := 297,
          events := [FlashLoanCalled 100 7 10000, FlashLoanExecuted 7 10000 297 5],
          calls := [Approve 7 1 10000, Swap 1 10000 0 [7, 8] 100 1700000300,
                    Approve 8 2 0, Swap 2 0 10100 [8, 7] 100 1700000300,
                    Approve 7 9 10005] \<rparr>)"
proof -
  have "aavePool mock_chain = 9" "owner mock_chain = 1" "\<not> entered mock_chain"
    "\<not> paused mock_chain" "router1 mock_chain = 1" "router2 mock_chain = 2"
    by (simp_all add: mock_chain_def)
  moreover have "(10000::nat) * 5 div 10000 = 5" by simp
  moreover have "(10000::nat) * 5 \<le> MAX_UINT256" by (simp add: MAX_UINT256_def)
  ultimately show ?thesis
    using zero_hop1_callback_run
    by (simp add: flashArbitrage_Inr) (auto simp: at_callback_def mock_chain_def)
qed

text \<open>
  C1 does not hold as stated. When every swap on router 2 reverts, the revert is caught,
  router 1 returns 10302 and the attempt succeeds: the profit counter goes from 0 to 297.
  When the first swap returns an output of zero and router 2 then returns 10302, the
  attempt succeeds as well.
\<close>

theorem absorbed_revert_does_not_fail_attempt:
  "router_swap reverting_router_env 2 100 10150 10100 [8, 7] 100 1700000300 ()
     = Inl (Revert ''INSUFFICIENT_LIQUIDITY'')
   \<and> transact (flashArbitrage reverting_router_env 1 7 10000 [7, 8] [8, 7] 0) mock_chain =
       (mock_chain
          \<lparr> totalProfits := 297,
            events := [FlashLoanCalled 100 7 10000, FlashLoanExecuted 7 10000 297 5],
            calls := [Approve 7 1 10000, Swap 1 10000 0 [7, 8] 100 1700000300,
                      Approve 8 2 10150, Swap 2 10150 10100 [8, 7] 100 1700000300,
                      Swap 1 10150 10100 [8, 7] 100 1700000300, Approve 7 9 10005] \<rparr>, None)
   \<and> totalProfits mock_chain = 0
   \<and> router_swap (fixed_outputs_env 0 10302) 1 100 10000 0 [7, 8] 100 1700000300 ()
       = Inr ([10000, 0], ())
   \<and> transact (flashArbitrage (fixed_outputs_env 0 10302) 1 7 10000 [7, 8] [8, 7] 0) mock_chain =
       (mock_chain
          \<lparr> totalProfits := 297,
            events := [FlashLoanCalled 100 7 10000, FlashLoanExecuted 7 10000 297 5],
            calls := [Approve 7 1 10000, Swap 1 10000 0 [7, 8] 100 1700000300,
                      Approve 8 2 0, Swap 2 0 10100 [8, 7] 100 1700000300,
                      Approve 7 9 10005] \<rparr>, None)"
proof -
  have "totalProfits mock_chain = 0" by (simp add: mock_chain_def)
  then show ?thesis
    using reverting_flashArbitrage_run zero_hop1_flashArbitrage_run
    by (simp add: transact_def)
qed

theorem failed_attempt_leaves_ledger_unchanged_witness:
  "executeSwaps mock_env 7 10000 [7, 8] [8, 7] (at_callback mock_env 7 10000 mock_chain) =
     Inr (10302, (at_callback mock_env 7 10000 mock_chain)
        \<lparr> calls := [Approve 7 1 10000, Swap 1 10000 0 [7, 8] 100 1700000300,
                    Approve 8 2 10150, Swap 2 10150 10100 [8, 7] 100 1700000300] \<rparr>)
   \<and> (10302::nat) - (10000 + 10000 * 5 div 10000) < 298
   \<and> fst (transact (flashArbitrage mock_env 1 7 10000 [7, 8] [8, 7] 298) mock_chain) = mock_chain
   \<and> snd (transact (flashArbitrage mock_env 1 7 10000 [7, 8] [8, 7] 298) mock_chain) \<noteq> None
   \<and> 5 \<noteq> aavePool mock_chain
   \<and> fst (transact (call_executeOperation mock_env 5 7 10000 5 100
              \<lparr> p_path1 = [7, 8], p_path2 = [8, 7], p_minProfit = 0 \<rparr>) mock_chain) = mock_chain
   \<and> snd (transact (call_executeOperation mock_env 5 7 10000 5 100
              \<lparr> p_path1 = [7, 8], p_path2 = [8, 7], p_minProfit = 0 \<rparr>) mock_chain) \<noteq> None"
proof -
  have short: "(10302::nat) - (10000 + 10000 * 5 div 10000) < 298" by simp
  have other: "5 \<noteq> aavePool mock_chain" by (simp add: mock_chain_def)
  from failed_attempt_leaves_ledger_unchanged
    [where env = mock_env and asset = 7 and amount = 10000 and ?path1.0 = "[7, 8]"
       and ?path2.0 = "[8, 7]" and c = mock_chain and minProfit = 298 and sender = 1
       and caller = 5 and initiator = 100 and premium = 5
       and params = "\<lparr> p_path1 = [7, 8], p_path2 = [8, 7], p_minProfit = 0 \<rparr>"]
    mock_executeSwaps short other
  show ?thesis by blast
qed

lemma mock_first_hop_one:
  "first_hop mock_env 7 1 [7, 8] mock_chain =
     Inr (1, mock_chain\<lparr> calls := [Approve 7 1 1, Swap 1 1 0 [7, 8] 100 1700000300,
                                       Approve 8 2 1] \<rparr>)"
  by (simp add: mock_first_hop mock_chain_def)

lemma mock_try_routers_one:
  "try_routers mock_env [2, 1] 1 1 [8, 7]
     (mock_chain\<lparr> calls := [Approve 7 1 1, Swap 1 1 0 [7, 8] 100 1700000300, Approve 8 2 1] \<rparr>) =
   Inr (1, mock_chain\<lparr> calls := [Approve 7 1 1, Swap 1 1 0 [7, 8] 100 1700000300, Approve 8 2 1,
                                     Swap 2 1 1 [8, 7] 100 1700000300] \<rparr>)"
  by (simp add: mock_try_routers mock_chain_def del: try_routers.simps)

theorem comparison_strictness_witness:
  "isl (executeOperation mock_env 9 7 10000 302 100
          \<lparr> p_path1 = [7, 8], p_path2 = [8, 7], p_minProfit = 297 \<rparr>
          (at_callback mock_env 7 10000 mock_chain))
   \<and> executeSwaps (fixed_router_env 0) 7 10000 [7, 8] [8, 7] mock_chain =
       Inl (Revert ''All swap attempts failed'')
   \<and> executeOperation mock_env 9 7 10000 5 100
        \<lparr> p_path1 = [7, 8], p_path2 = [8, 7], p_minProfit = 297 \<rparr>
        (at_callback mock_env 7 10000 mock_chain) =
       Inr (True, (at_callback mock_env 7 10000 mock_chain)
          \<lparr> totalProfits := 297,
            events := [FlashLoanCalled 100 7 10000, FlashLoanExecuted 7 10000 297 5],
            calls := [Approve 7 1 10000, Swap 1 10000 0 [7, 8] 100 1700000300,
                      Approve 8 2 10150, Swap 2 10150 10100 [8, 7] 100 1700000300,
                      Approve 7 9 10005] \<rparr>)
   \<and> executeSwaps mock_env 7 1 [7, 8] [8, 7] mock_chain =
       Inr (1, mock_chain\<lparr> calls := [Approve 7 1 1, Swap 1 1 0 [7, 8] 100 1700000300,
                                         Approve 8 2 1, Swap 2 1 1 [8, 7] 100 1700000300] \<rparr>)"
proof -
  let ?P = "\<lparr> p_path1 = [7, 8], p_path2 = [8, 7], p_minProfit = 297 \<rparr>"
  let ?cb = "at_callback mock_env 7 10000 mock_chain"
  let ?cs = "?cb\<lparr> calls := [Approve 7 1 10000, Swap 1 10000 0 [7, 8] 100 1700000300,
                    Approve 8 2 10150, Swap 2 10150 10100 [8, 7] 100 1700000300] \<rparr>"
  let ?ch = "mock_chain\<lparr> calls := [Approve 7 1 10000, Swap 1 10000 0 [7, 8] 100 1700000300,
                                    Approve 8 2 10150] \<rparr>"
  let ?ch1 = "mock_chain\<lparr> calls := [Approve 7 1 1, Swap 1 1 0 [7, 8] 100 1700000300,
                                     Approve 8 2 1] \<rparr>"
  let ?cq = "mock_chain\<lparr> calls := [Approve 7 1 1, Swap 1 1 0 [7, 8] 100 1700000300,
                                    Approve 8 2 1, Swap 2 1 1 [8, 7] 100 1700000300] \<rparr>"
  have sw: "executeSwaps mock_env 7 10000 (p_path1 ?P) (p_path2 ?P) ?cb = Inr (10302, ?cs)"
    using mock_executeSwaps by simp
  from comparison_strictness
    [where env = mock_env and asset = 7 and amount = 10000 and params = ?P and c = ?cb
       and finalAmount = 10302 and ?c1.0 = ?cs and premium = 302 and sender = 9
       and initiator = 100]
    sw
  have strict: "isl (executeOperation mock_env 9 7 10000 302 100 ?P ?cb)" by simp
  have loop: "try_routers (fixed_router_env 0) [router2 ?ch, router1 ?ch] 10150
                (10000 * 101 div 100) [8, 7] ?ch
              = Inr (0, ?ch\<lparr> calls := calls ?ch @ [Swap 2 10150 10100 [8, 7] 100 1700000300] \<rparr>)"
    by (simp add: fixed_try_routers mock_chain_def del: try_routers.simps)
  have fits: "(10000::nat) * 101 \<le> MAX_UINT256" by (simp add: MAX_UINT256_def)
  from comparison_strictness
    [where env = "fixed_router_env 0" and asset = 7 and amount = 10000 and ?path1.0 = "[7, 8]"
       and c = mock_chain and ia = 10150 and ?c3.0 = ?ch and ?path2.0 = "[8, 7]"
       and ?c4.0 = "?ch\<lparr> calls := calls ?ch @ [Swap 2 10150 10100 [8, 7] 100 1700000300] \<rparr>"]
    fixed_zero_first_hop loop fits
  have zero: "executeSwaps (fixed_router_env 0) 7 10000 [7, 8] [8, 7] mock_chain =
       Inl (Revert ''All swap attempts failed'')"
    by blast
  have ap: "approve mock_env 7 (aavePool ?cs) (10000 + 5) ?cs =
      Inr (?cs\<lparr> calls := calls ?cs @ [Approve 7 9 10005] \<rparr>)"
    by (simp add: approve_def at_callback_def mock_chain_def)
  have guards: "9 = aavePool ?cb" "100 = self mock_env" "inFlashLoan ?cb"
    "(10000::nat) + 5 < 10302" "(10000::nat) + 5 \<le> MAX_UINT256"
    "(10302::nat) - (10000 + 5) = p_minProfit ?P"
    "totalProfits (?cs\<lparr> calls := calls ?cs @ [Approve 7 9 10005] \<rparr>) + p_minProfit ?P
       \<le> MAX_UINT256"
    by (simp_all add: at_callback_def mock_chain_def MAX_UINT256_def)
  from comparison_strictness
    [where env = mock_env and asset = 7 and amount = 10000 and params = ?P and c = ?cb
       and finalAmount = 10302 and ?c1.0 = ?cs and premium = 5 and sender = 9
       and initiator = 100 and ?c2.0 = "?cs\<lparr> calls := calls ?cs @ [Approve 7 9 10005] \<rparr>"]
    sw ap guards
  have equal_passes: "executeOperation mock_env 9 7 10000 5 100 ?P ?cb =
      Inr (True, (?cs\<lparr> calls := calls ?cs @ [Approve 7 9 10005] \<rparr>)
         \<lparr> totalProfits := totalProfits (?cs\<lparr> calls := calls ?cs @ [Approve 7 9 10005] \<rparr>)
                             + p_minProfit ?P,
           events := events (?cs\<lparr> calls := calls ?cs @ [Approve 7 9 10005] \<rparr>) @
                       [FlashLoanExecuted 7 10000 (p_minProfit ?P) 5] \<rparr>)"
    by blast
  have loop1: "try_routers mock_env [router2 ?ch1, router1 ?ch1] 1 (1 * 101 div 100) [8, 7] ?ch1
      = Inr (1, ?cq)"
    using mock_try_routers_one by (simp add: mock_chain_def del: try_routers.simps)
  have fits1: "(1::nat) * 101 \<le> MAX_UINT256" "(0::nat) < 1" "(1::nat) = 1 + 1 * 50 div 10000"
    by (simp_all add: MAX_UINT256_def)
  from comparison_strictness
    [where env = mock_env and asset = 7 and amount = 1 and ?path1.0 = "[7, 8]"
       and c = mock_chain and ia = 1 and ?c3.0 = ?ch1 and ?path2.0 = "[8, 7]"
       and r = 1 and ?c5.0 = ?cq]
    mock_first_hop_one loop1 fits1
  have floor_passes: "executeSwaps mock_env 7 1 [7, 8] [8, 7] mock_chain = Inr (1, ?cq)"
    by blast
  from equal_passes have "executeOperation mock_env 9 7 10000 5 100 ?P ?cb =
       Inr (True, ?cb
          \<lparr> totalProfits := 297,
            events := [FlashLoanCalled 100 7 10000, FlashLoanExecuted 7 10000 297 5],
            calls := [Approve 7 1 10000, Swap 1 10000 0 [7, 8] 100 1700000300,
                      Approve 8 2 10150, Swap 2 10150 10100 [8, 7] 100 1700000300,
                      Approve 7 9 10005] \<rparr>)"
    by (simp add: at_callback_def mock_chain_def)
  with strict zero floor_passes show ?thesis by simp
qed




section \<open>Properties of the opportunity scanner\<close>


lemma findArbitrage_profitable:
  assumes "arb_profitable (findArbitrage reader now pair1Address pair2Address tokenIn amountIn)"
  shows "\<exists>out. arb_amountOut (findArbitrage reader now pair1Address pair2Address tokenIn amountIn)
                  = Some out
           \<and> amountIn < out
           \<and> arb_profit (findArbitrage reader now pair1Address pair2Address tokenIn amountIn)
               = out - amountIn
           \<and> arb_amountIn (findArbitrage reader now pair1Address pair2Address tokenIn amountIn)
               = Some amountIn"
proof (cases "findArbitrage_try reader now pair1Address pair2Address tokenIn amountIn")
  case (Inl e)
  with assms show ?thesis by (simp add: findArbitrage_def)
next
  case (Inr result)
  then have res: "findArbitrage reader now pair1Address pair2Address tokenIn amountIn = result"
    by (simp add: findArbitrage_def)
  from Inr obtain out where
    f: "arb_profitable result = (amountIn < out)"
       "arb_profit result = (if amountIn < out then out - amountIn else 0)"
       "arb_amountIn result = Some amountIn" "arb_amountOut result = Some out"
    by (auto simp: findArbitrage_try_def Let_def and_then_Inr)
  from assms res f(1) have "amountIn < out" by simp
  with f res show ?thesis by simp
qed

lemma scan_pair_kept:
  assumes "x \<in> set (scan_pair reader clock tokenIn amountIn e1 e2)"
  shows "arb_profitable x \<and> arb_amountIn x = Some amountIn
         \<and> (\<exists>out. arb_amountOut x = Some out \<and> amountIn < out \<and> arb_profit x = out - amountIn)
         \<and> dex1 x \<noteq> dex2 x"
proof -
  let ?r = "findArbitrage reader (clock (pair_address (snd e1)) (pair_address (snd e2)))
              (pair_address (snd e1)) (pair_address (snd e2)) tokenIn amountIn"
  from assms have p: "arb_profitable ?r" and d: "dex (snd e1) \<noteq> dex (snd e2)"
    and x: "x = arb_result.extend ?r
              \<lparr> dex1 = dex (snd e1), dex2 = dex (snd e2), pairName = fst e1,
                opp_token0 = pair_token0 (snd e1), opp_token1 = pair_token1 (snd e1) \<rparr>"
    by (auto simp: scan_pair_def Let_def split: if_splits)
  from findArbitrage_profitable [OF p] x p d show ?thesis
    by (auto simp: arb_result.defs)
qed

lemma scan_loops_kept:
  "x \<in> set (scan_loops reader clock tokenIn amountIn ps) \<Longrightarrow>
     arb_profitable x \<and> arb_amountIn x = Some amountIn
     \<and> (\<exists>out. arb_amountOut x = Some out \<and> amountIn < out \<and> arb_profit x = out - amountIn)
     \<and> dex1 x \<noteq> dex2 x"
  by (induction ps) (auto dest: scan_pair_kept)

lemma set_insert_by: "set (insert_by cmp x ys) = insert x (set ys)"
  by (induction ys) auto

lemma set_foldl_insert_by:
  "set (foldl (\<lambda>sorted x. insert_by cmp x sorted) acc xs) = set acc \<union> set xs"
  by (induction xs arbitrary: acc) (auto simp: set_insert_by)

lemma set_array_sort: "set (array_sort cmp xs) = set xs"
  by (simp add: array_sort_def set_foldl_insert_by)

lemma length_insert_by: "length (insert_by cmp x ys) = Suc (length ys)"
  by (induction ys) auto

lemma length_array_sort_aux:
  "length (foldl (\<lambda>sorted x. insert_by cmp x sorted) acc xs) = length acc + length xs"
  by (induction xs arbitrary: acc) (auto simp: length_insert_by)

lemma sorted_insert_by_profit:
  "sorted_wrt (\<lambda>a b. arb_profit a \<ge> arb_profit b) ys \<Longrightarrow>
   sorted_wrt (\<lambda>a b. arb_profit a \<ge> arb_profit b) (insert_by by_profit x ys)"
  by (induction ys) (auto simp: set_insert_by by_profit_def)

lemma sorted_foldl_by_profit:
  "sorted_wrt (\<lambda>a b. arb_profit a \<ge> arb_profit b) acc \<Longrightarrow>
   sorted_wrt (\<lambda>a b. arb_profit a \<ge> arb_profit b)
     (foldl (\<lambda>sorted x. insert_by by_profit x sorted) acc xs)"
  by (induction xs arbitrary: acc) (auto simp: sorted_insert_by_profit)

text \<open>
  C8. Every opportunity returned by \<open>scanAll\<close> comes from two entries of different venues,
  is a round trip computed for \<open>amountIn\<close> whose final amount is strictly greater than
  \<open>amountIn\<close>, and carries the difference as its positive profit; the returned list holds
  exactly the opportunities collected by the loops, in descending order of profit.
\<close>

theorem scanAll_keeps_profitable_sorted:
  "(\<forall>x \<in> set (scanAll reader clock pairs tokenIn amountIn).
       arb_profitable x \<and> arb_amountIn x = Some amountIn
       \<and> (\<exists>out. arb_amountOut x = Some out \<and> amountIn < out \<and> arb_profit x = out - amountIn)
       \<and> 0 < arb_profit x \<and> dex1 x \<noteq> dex2 x)
   \<and> sorted_wrt (\<lambda>a b. arb_profit a \<ge> arb_profit b) (scanAll reader clock pairs tokenIn amountIn)
   \<and> set (scanAll reader clock pairs tokenIn amountIn)
       = set (scan_loops reader clock tokenIn amountIn pairs)
   \<and> length (scanAll reader clock pairs tokenIn amountIn)
       = length (scan_loops reader clock tokenIn amountIn pairs)"
proof (intro conjI ballI)
  fix x assume "x \<in> set (scanAll reader clock pairs tokenIn amountIn)"
  then have "x \<in> set (scan_loops reader clock tokenIn amountIn pairs)"
    by (simp add: scanAll_def set_array_sort)
  from scan_loops_kept [OF this]
  show "arb_profitable x" "arb_amountIn x = Some amountIn"
    "\<exists>out. arb_amountOut x = Some out \<and> amountIn < out \<and> arb_profit x = out - amountIn"
    "0 < arb_profit x" "dex1 x \<noteq> dex2 x"
    by auto
next
  show "sorted_wrt (\<lambda>a b. arb_profit a \<ge> arb_profit b) (scanAll reader clock pairs tokenIn amountIn)"
    by (simp add: scanAll_def array_sort_def sorted_foldl_by_profit)
next
  show "set (scanAll reader clock pairs tokenIn amountIn)
       = set (scan_loops reader clock tokenIn amountIn pairs)"
    by (simp add: scanAll_def set_array_sort)
next
  show "length (scanAll reader clock pairs tokenIn amountIn)
       = length (scan_loops reader clock tokenIn amountIn pairs)"
    by (simp add: scanAll_def array_sort_def length_array_sort_aux)
qed


lemma sample_scan_profits:
  "map (\<lambda>x. (arb_profit x, dex1 x, dex2 x, arb_amountOut x))
       (scan_loops sample_reader (\<lambda>a b. 0) ''0xWETH'' 10 sample_pairs)
     = [(1, ''sushiswap'', ''shibaswap'', Some 11), (2, ''uniswap'', ''shibaswap'', Some 12)]
   \<and> map (\<lambda>x. (arb_profit x, dex1 x, dex2 x, arb_amountOut x))
       (scanAll sample_reader (\<lambda>a b. 0) sample_pairs ''0xWETH'' 10)
     = [(2, ''uniswap'', ''shibaswap'', Some 12), (1, ''sushiswap'', ''shibaswap'', Some 11)]"
  by code_simp


theorem scanAll_keeps_profitable_sorted_witness:
  "map (\<lambda>x. (arb_profit x, dex1 x, dex2 x, arb_amountOut x))
       (scan_loops sample_reader (\<lambda>a b. 0) ''0xWETH'' 10 sample_pairs)
     = [(1, ''sushiswap'', ''shibaswap'', Some 11), (2, ''uniswap'', ''shibaswap'', Some 12)]
   \<and> map (\<lambda>x. (arb_profit x, dex1 x, dex2 x, arb_amountOut x))
       (scanAll sample_reader (\<lambda>a b. 0) sample_pairs ''0xWETH'' 10)
     = [(2, ''uniswap'', ''shibaswap'', Some 12), (1, ''sushiswap'', ''shibaswap'', Some 11)]
   \<and> arb_profitable (hd (scanAll sample_reader (\<lambda>a b. 0) sample_pairs ''0xWETH'' 10))
   \<and> arb_amountIn (hd (scanAll sample_reader (\<lambda>a b. 0) sample_pairs ''0xWETH'' 10)) = Some 10
   \<and> 0 < arb_profit (hd (scanAll sample_reader (\<lambda>a b. 0) sample_pairs ''0xWETH'' 10))
   \<and> sorted_wrt (\<lambda>a b. arb_profit a \<ge> arb_profit b)
        (scanAll sample_reader (\<lambda>a b. 0) sample_pairs ''0xWETH'' 10)"
proof -
  let ?scan = "scanAll sample_reader (\<lambda>a b. 0) sample_pairs ''0xWETH'' 10"
  from sample_scan_profits have "?scan \<noteq> []" by auto
  then have "hd ?scan \<in> set ?scan" by simp
  with scanAll_keeps_profitable_sorted [of sample_reader "\<lambda>a b. 0" sample_pairs "''0xWETH''" 10]
  have "arb_profitable (hd ?scan)" "arb_amountIn (hd ?scan) = Some 10" "0 < arb_profit (hd ?scan)"
    "sorted_wrt (\<lambda>a b. arb_profit a \<ge> arb_profit b) ?scan"
    by blast+
  with sample_scan_profits show ?thesis by simp
qed


section \<open>Properties of the submission channel\<close>

lemma no_method_executeViaFlashbots: "lookup_method ''executeViaFlashbots'' = None"
  by (simp add: lookup_method_def ArbitrageBot_methods_def)

lemma later_definition_wins: "lookup_method ''executeViaMempool'' = Some executeViaMempool_second"
  by (simp add: lookup_method_def ArbitrageBot_methods_def)

text \<open>
  The bundle path as it is written, were it ever called: a failed simulation records a
  failure and sends nothing; a bundle that is not included records nothing.
\<close>

lemma bundle_path_as_written:
  "executeViaMempool_first (sample_bot_env\<lparr> simulation := SimFirstRevert \<rparr>) sample_found sample_bot =
     Inr (sample_bot\<lparr> breaker := (breaker sample_bot)\<lparr> failures := 1, lastFailureTime := Some 1500 \<rparr>,
                      actions := [PopulateTransaction, GetBlockNumber, SignBundle,
                                  Simulate 19000001] \<rparr>)
   \<and> executeViaMempool_first (sample_bot_env\<lparr> waitResponse := 1 \<rparr>) sample_found sample_bot =
     Inr (sample_bot\<lparr> actions := [PopulateTransaction, GetBlockNumber, SignBundle,
                                  Simulate 19000001, SendBundle 19000001, WaitInclusion] \<rparr>)"
  by (simp add: executeViaMempool_first_def ageMs_def num_or_def slippage_check_def or_throw_def
      getProtectedParameters_def calculateArbitrageSlippage_def calculateMinAmountOut_def
      isProfitableWithSlippage_def toBigInt_def js_or_def bigint_div_def bigint_quot_def
      sample_bot_env_def sample_found_def sample_bot_def sample_opportunity_def
      opportunity.defs act_def bot_recordFailure_def recordFailure_def new_CircuitBreaker_def
      Let_def)

text \<open>
  C6. With the Flashbots provider available, \<open>executeFlashLoanArbitrage\<close> calls a method
  \<^verbatim>\<open>executeViaFlashbots\<close> that the class does not have: whatever the opportunity and the
  outside, it throws a \<^verbatim>\<open>TypeError\<close> before anything is built, signed, simulated or
  submitted. \<open>executeArbitrageReal\<close> catches it: on the sample bot a failure is recorded
  and an error notified, and nothing else is sent.
\<close>

theorem private_path_is_never_taken:
  "executeFlashLoanArbitrage env opp (b\<lparr> flashbotsProvider := True \<rparr>)
     = Inl (TypeError, b\<lparr> flashbotsProvider := True \<rparr>)
   \<and> executeArbitrageReal sample_bot_env sample_found sample_bot =
       sample_bot\<lparr> breaker := (breaker sample_bot)\<lparr> failures := 1, lastFailureTime := Some 1500 \<rparr>,
                   actions := [AcquireLock, NotifyError, ReleaseLock] \<rparr>"
  by (simp add: executeFlashLoanArbitrage_def call_method_def no_method_executeViaFlashbots
      executeArbitrageReal_def sample_bot_env_def sample_bot_def act_def bot_recordFailure_def
      recordFailure_def new_CircuitBreaker_def num_or_def Let_def)

end
